theory Spec2Isabelle
  imports Complex_Main "HOL-Library.Word"
begin

section \<open>Python values: bytes, strings, floats, exceptions\<close>

text \<open>
  A datagram is a sequence of bytes. A Python \<open>str\<close> is a sequence of Unicode code
  points, so it is modelled as a list of naturals and not as a list of bytes: the
  whitespace that \<open>str.strip\<close> and \<open>str.split\<close> recognise includes code points
  above 255. \<open>lit\<close> turns an ASCII literal of the source into such a string; the
  Chinese message literals of the source are given by their code points.
\<close>

type_synonym byte = "8 word"

type_synonym bytes = "byte list"

type_synonym pystr = "nat list"

definition lit :: "string \<Rightarrow> pystr" where
  "lit s = map of_char s"

text \<open>\<open>b.decode('ascii')\<close> of bytes known to be ASCII, used for byte literals.\<close>

definition blit :: "string \<Rightarrow> bytes" where
  "blit s = map of_char s"

definition is_ascii :: "char \<Rightarrow> bool" where
  "is_ascii c = ((of_char c :: nat) < 128)"

text \<open>
  A Python float is one of finitely many rationals, an infinity or NaN. Only the
  comparisons with zero of the source are modelled; \<open>nan > 0\<close> and \<open>nan <= 0\<close> are
  both false in Python.
\<close>

datatype pyfloat = Finite rat | PosInf | NegInf | NaN

fun float_gt0 :: "pyfloat \<Rightarrow> bool" where
  "float_gt0 (Finite q) = (0 < q)"
| "float_gt0 PosInf = True"
| "float_gt0 NegInf = False"
| "float_gt0 NaN = False"

fun float_le0 :: "pyfloat \<Rightarrow> bool" where
  "float_le0 (Finite q) = (q \<le> 0)"
| "float_le0 PosInf = False"
| "float_le0 NegInf = True"
| "float_le0 NaN = False"

datatype exn =
    UnicodeDecodeError
  | IndexError
  | KeyError pystr
  | ValueError pystr
  | OSError pystr

subsection \<open>Whitespace, strip, split, join\<close>

text \<open>The code points for which \<open>str.isspace\<close> holds.\<close>

definition is_space :: "nat \<Rightarrow> bool" where
  "is_space c =
     ((9 \<le> c \<and> c \<le> 13) \<or> (28 \<le> c \<and> c \<le> 32) \<or> c = 133 \<or> c = 160 \<or> c = 5760 \<or>
      (8192 \<le> c \<and> c \<le> 8202) \<or> c = 8232 \<or> c = 8233 \<or> c = 8239 \<or> c = 8287 \<or>
      c = 12288)"

definition strip :: "pystr \<Rightarrow> pystr" where
  "strip s = rev (dropWhile is_space (rev (dropWhile is_space s)))"

text \<open>
  \<open>s.split()\<close> with no argument: maximal runs of non-whitespace. The first argument
  of \<open>split_from\<close> is the token being read, reversed.
\<close>

fun split_from :: "pystr \<Rightarrow> pystr \<Rightarrow> pystr list" where
  "split_from cur [] = (if cur = [] then [] else [rev cur])"
| "split_from cur (c # cs) =
     (if is_space c then (if cur = [] then split_from [] cs else rev cur # split_from [] cs)
      else split_from (c # cur) cs)"

definition split :: "pystr \<Rightarrow> pystr list" where
  "split s = split_from [] s"

fun join :: "pystr \<Rightarrow> pystr list \<Rightarrow> pystr" where
  "join sep [] = []"
| "join sep [x] = x"
| "join sep (x # y # ys) = x @ sep @ join sep (y # ys)"

definition startswith :: "'a list \<Rightarrow> 'a list \<Rightarrow> bool" where
  "startswith s p = (take (length p) s = p)"

subsection \<open>UTF-8\<close>

text \<open>
  \<open>bytes.decode()\<close> is strict UTF-8: it raises \<open>UnicodeDecodeError\<close> on any
  ill-formed sequence (a stray continuation byte, an overlong form, a surrogate, a
  value above U+10FFFF, a truncated sequence). \<open>None\<close> is that exception.
\<close>

definition is_cont :: "byte \<Rightarrow> bool" where
  "is_cont b = (0x80 \<le> b \<and> b \<le> 0xBF)"

definition second_ok3 :: "byte \<Rightarrow> byte \<Rightarrow> bool" where
  "second_ok3 b0 b1 =
     (if b0 = 0xE0 then 0xA0 \<le> b1 \<and> b1 \<le> 0xBF
      else if b0 = 0xED then 0x80 \<le> b1 \<and> b1 \<le> 0x9F
      else is_cont b1)"

definition second_ok4 :: "byte \<Rightarrow> byte \<Rightarrow> bool" where
  "second_ok4 b0 b1 =
     (if b0 = 0xF0 then 0x90 \<le> b1 \<and> b1 \<le> 0xBF
      else if b0 = 0xF4 then 0x80 \<le> b1 \<and> b1 \<le> 0x8F
      else is_cont b1)"

definition cp2 :: "byte \<Rightarrow> byte \<Rightarrow> nat" where
  "cp2 b0 b1 = (unat b0 - 192) * 64 + (unat b1 - 128)"

definition cp3 :: "byte \<Rightarrow> byte \<Rightarrow> byte \<Rightarrow> nat" where
  "cp3 b0 b1 b2 = (unat b0 - 224) * 4096 + (unat b1 - 128) * 64 + (unat b2 - 128)"

definition cp4 :: "byte \<Rightarrow> byte \<Rightarrow> byte \<Rightarrow> byte \<Rightarrow> nat" where
  "cp4 b0 b1 b2 b3 =
     (unat b0 - 240) * 262144 + (unat b1 - 128) * 4096 + (unat b2 - 128) * 64 + (unat b3 - 128)"

text \<open>
  The first code point of a byte sequence and the bytes after it, or \<open>None\<close> when
  the sequence does not start with a well-formed UTF-8 character.
\<close>

fun utf8_next :: "bytes \<Rightarrow> (nat \<times> bytes) option" where
  "utf8_next [] = None"
| "utf8_next (b0 # bs) =
     (if b0 < 0x80 then Some (unat b0, bs)
      else if 0xC2 \<le> b0 \<and> b0 \<le> 0xDF then
        (case bs of
           b1 # r \<Rightarrow> if is_cont b1 then Some (cp2 b0 b1, r) else None
         | _ \<Rightarrow> None)
      else if 0xE0 \<le> b0 \<and> b0 \<le> 0xEF then
        (case bs of
           b1 # b2 # r \<Rightarrow>
             if second_ok3 b0 b1 \<and> is_cont b2 then Some (cp3 b0 b1 b2, r) else None
         | _ \<Rightarrow> None)
      else if 0xF0 \<le> b0 \<and> b0 \<le> 0xF4 then
        (case bs of
           b1 # b2 # b3 # r \<Rightarrow>
             if second_ok4 b0 b1 \<and> is_cont b2 \<and> is_cont b3
             then Some (cp4 b0 b1 b2 b3, r) else None
         | _ \<Rightarrow> None)
      else None)"

lemma utf8_next_shorter: "utf8_next bs = Some (c, r) \<Longrightarrow> length r < length bs"
  by (cases bs) (auto split: if_splits list.splits)

function utf8_decode :: "bytes \<Rightarrow> pystr option" where
  "utf8_decode bs =
     (if bs = [] then Some []
      else case utf8_next bs of
             None \<Rightarrow> None
           | Some (c, r) \<Rightarrow> (case utf8_decode r of None \<Rightarrow> None | Some s \<Rightarrow> Some (c # s)))"
  by pat_completeness auto

termination
  by (relation "measure length") (auto dest: utf8_next_shorter)

text \<open>
  \<open>bytes.decode('utf-8', errors='ignore')\<close> drops what is ill-formed: where no
  character starts, one byte is skipped and decoding goes on (the further bytes of an
  ill-formed sequence are continuation bytes, which start no character either).
\<close>

function utf8_decode_ignore :: "bytes \<Rightarrow> pystr" where
  "utf8_decode_ignore bs =
     (if bs = [] then []
      else case utf8_next bs of
             None \<Rightarrow> utf8_decode_ignore (tl bs)
           | Some (c, r) \<Rightarrow> c # utf8_decode_ignore r)"
  by pat_completeness auto

termination
  by (relation "measure length") (auto dest: utf8_next_shorter)

declare utf8_decode.simps [simp del] utf8_decode_ignore.simps [simp del]

text \<open>
  \<open>str.lower\<close> on the ASCII letters; other code points are left as they are. The
  source lowers the literals \<open>'on'\<close> and \<open>'off'\<close> and file paths that it then
  compares with ASCII suffixes.
\<close>

definition lower :: "pystr \<Rightarrow> pystr" where
  "lower s = map (\<lambda>c. if 65 \<le> c \<and> c \<le> 90 then c + 32 else c) s"

definition endswith :: "'a list \<Rightarrow> 'a list \<Rightarrow> bool" where
  "endswith s p = (length p \<le> length s \<and> drop (length s - length p) s = p)"

section \<open>The device state and its environment\<close>

text \<open>
  The module-level flags of the source, together with what the capability ports hold:
  the level of the LED pin, the handle of the HDMI player process, the handles that
  were terminated, and how many worker threads each start operation has spawned.
\<close>

record device =
  continuous_capture :: bool
  capture_interval :: pyfloat
  capture_threads :: nat
  is_audio_recording :: bool
  audio_threads :: nat
  hdmi_player_process :: "nat option"
  terminated :: "nat list"
  led :: bool

text \<open>
  What the code reads from outside: Python's \<open>float()\<close> (\<open>None\<close> is its
  \<open>ValueError\<close>) and float formatting, whether the GPIO library was imported, the
  clock, the file system's \<open>os.path.exists\<close>, and the outcome of each call that
  drives hardware or a child process (\<open>Some m\<close> or \<open>Inl m\<close>: the call raises an
  exception whose text is \<open>m\<close>). The \<open>port_\<close> fields give the \<open>(success, result)\<close>
  pair of the handlers of the final variant that only drive a capability port and
  touch none of the flags above.
\<close>

record env =
  GPIO_AVAILABLE :: bool
  py_float :: "pystr \<Rightarrow> pyfloat option"
  float_format :: "pyfloat \<Rightarrow> pystr"
  timestamp :: pystr
  path_exists :: "pystr \<Rightarrow> bool"
  gpio_output_fault :: "pystr option"
  camera_fault :: "pystr option"
  audio_open_fault :: "pystr option"
  audio_save_fault :: "pystr option"
  popen :: "pystr + nat"
  serial_available :: "pystr \<Rightarrow> bool"
  serial_write_fault :: "pystr option"
  system_return_code :: "pystr \<Rightarrow> int"
  port_capture_image :: "bool \<times> pystr"
  port_record_video :: "pyfloat \<Rightarrow> bool \<times> pystr"
  port_set_system_time :: "pystr \<Rightarrow> bool \<times> pystr"
  port_display_file :: "pystr \<Rightarrow> bool \<times> pystr"
  port_serial_send :: "pystr \<Rightarrow> pystr \<Rightarrow> bool \<times> pystr"
  port_play_audio :: "pystr \<Rightarrow> bool \<times> pystr"
  port_run_oled_script :: "bool \<times> pystr"
  port_tcp_send_file :: "pystr \<Rightarrow> pystr \<Rightarrow> bool \<times> pystr"

definition FILE_SAVE_PATH :: pystr where
  "FILE_SAVE_PATH = lit ''/home/ppt5517/received_files/''"

section \<open>The final variant: commands mapped to hexadecimal codes\<close>

subsection \<open>The command table\<close>

definition COMMAND_MAPPING :: "(pystr \<times> pystr) list" where
  "COMMAND_MAPPING =
     [(lit ''capture'', lit ''0x14BD0001''),
      (lit ''continuous_capture'', lit ''0x14BD0002''),
      (lit ''continuous_capture stop'', lit ''0x14BD0003''),
      (lit ''record'', lit ''0x14BD0004''),
      (lit ''audio_record_start'', lit ''0x14BD0005''),
      (lit ''audio_record_stop'', lit ''0x14BD0006''),
      (lit ''audio_play'', lit ''0x14BD0007''),
      (lit ''set_time'', lit ''0x42EB0001''),
      (lit ''file_transfer'', lit ''0x20010001''),
      (lit ''download'', lit ''0x20010002''),
      (lit ''hdmi_play'', lit ''0x22A10001''),
      (lit ''hdmi_stop'', lit ''0x22A10002''),
      (lit ''tcp_send_file'', lit ''0x30C10001''),
      (lit ''run_script oled'', lit ''0x30020001''),
      (lit ''led_on'', lit ''0x40010001''),
      (lit ''led_off'', lit ''0x40020001''),
      (lit ''display'', lit ''0x50010001''),
      (lit ''serial'', lit ''0x60010001'')]"

text \<open>\<open>COMMAND_MAPPING.get(key, default)\<close> and \<open>COMMAND_MAPPING[key]\<close>.\<close>

definition mapping_get :: "pystr \<Rightarrow> pystr \<Rightarrow> pystr" where
  "mapping_get key dflt = (case map_of COMMAND_MAPPING key of Some c \<Rightarrow> c | None \<Rightarrow> dflt)"

definition mapping_at :: "pystr \<Rightarrow> exn + pystr" where
  "mapping_at key = (case map_of COMMAND_MAPPING key of Some c \<Rightarrow> Inr c | None \<Rightarrow> Inl (KeyError key))"

text \<open>
  \<open>get_command_code\<close>: the first token when the command holds a space, the whole
  command otherwise; \<open>'continuous_capture stop'\<close> is looked up as it is. Indexing the
  empty token list raises \<open>IndexError\<close>.
\<close>

definition get_command_code :: "pystr \<Rightarrow> exn + pystr" where
  "get_command_code full_command =
     (case (if 32 \<in> set full_command
            then (case split full_command of [] \<Rightarrow> Inl IndexError | t # _ \<Rightarrow> Inr t)
            else Inr full_command) of
        Inl e \<Rightarrow> Inl e
      | Inr base_cmd \<Rightarrow>
          Inr (mapping_get
                 (if full_command = lit ''continuous_capture stop'' then full_command
                  else base_cmd)
                 (lit ''0x00000000'')))"

subsection \<open>Messages\<close>

definition msg_already_capturing :: pystr where
  "msg_already_capturing = [24050, 32463, 22312, 36830, 32493, 25293, 25668, 27169, 24335]"

definition msg_capture_started :: "pystr \<Rightarrow> pystr" where
  "msg_capture_started interval =
     [24320, 22987, 36830, 32493, 25293, 25668, 65292, 38388, 38548, 32] @ interval @ [32, 31186]"

definition msg_capture_stopped :: pystr where
  "msg_capture_stopped = [24050, 20572, 27490, 36830, 32493, 25293, 25668]"

definition msg_gpio_unavailable :: pystr where
  "msg_gpio_unavailable = [71, 80, 73, 79, 19981, 21487, 29992]"

definition msg_led_on :: pystr where
  "msg_led_on = [76, 69, 68, 24050, 24320, 21551]"

definition msg_led_off :: pystr where
  "msg_led_off = [76, 69, 68, 24050, 20851, 38381]"

definition msg_invalid_led_state :: pystr where
  "msg_invalid_led_state = [26080, 25928, 30340, 29366, 24577, 32, 40, 111, 110, 47, 111, 102, 102, 41]"

definition msg_already_recording :: pystr where
  "msg_already_recording = [24050, 32463, 22312, 24405, 38899, 20013]"

definition msg_recording_started :: pystr where
  "msg_recording_started = [24405, 38899, 24050, 24320, 22987]"

definition msg_no_recording :: pystr where
  "msg_no_recording = [27809, 26377, 27491, 22312, 36827, 34892, 30340, 24405, 38899]"

definition msg_recording_saved :: "pystr \<Rightarrow> pystr" where
  "msg_recording_saved filename = [24405, 38899, 24050, 20445, 23384, 58, 32] @ filename"

definition msg_file_missing :: pystr where
  "msg_file_missing = [25991, 20214, 19981, 23384, 22312]"

definition msg_hdmi_playing :: "pystr \<Rightarrow> pystr" where
  "msg_hdmi_playing filepath = [27491, 22312, 72, 68, 77, 73, 25773, 25918, 58, 32] @ filepath"

definition msg_hdmi_stopped :: pystr where
  "msg_hdmi_stopped = [72, 68, 77, 73, 25773, 25918, 24050, 20572, 27490]"

definition msg_no_video :: pystr where
  "msg_no_video = [27809, 26377, 27491, 22312, 25773, 25918, 30340, 35270, 39057]"

definition msg_invalid_interval :: pystr where
  "msg_invalid_interval = [26080, 25928, 30340, 38388, 38548, 26102, 38388]"

definition msg_invalid_duration :: pystr where
  "msg_invalid_duration = [26080, 25928, 30340, 24405, 21046, 26102, 38271]"

definition msg_need_duration :: pystr where
  "msg_need_duration = [38656, 35201, 25351, 23450, 24405, 21046, 26102, 38271]"

definition msg_need_time :: pystr where
  "msg_need_time = [38656, 35201, 25351, 23450, 26102, 38388]"

definition msg_need_path :: pystr where
  "msg_need_path = [38656, 35201, 25351, 23450, 25991, 20214, 36335, 24452]"

definition msg_need_serial :: pystr where
  "msg_need_serial = [38656, 35201, 25351, 23450, 20018, 21475, 21644, 25968, 25454]"

definition msg_need_audio :: pystr where
  "msg_need_audio = [38656, 35201, 25351, 23450, 38899, 39057, 25991, 20214]"

definition msg_need_video :: pystr where
  "msg_need_video = [38656, 35201, 25351, 23450, 35270, 39057, 25991, 20214]"

definition msg_need_target :: pystr where
  "msg_need_target = [38656, 35201, 25351, 23450, 30446, 26631, 73, 80, 21644, 25991, 20214, 36335, 24452]"

definition msg_unknown_command :: pystr where
  "msg_unknown_command = [26410, 30693, 21629, 20196]"

subsection \<open>Handlers\<close>

text \<open>\<open>os.path.join\<close> of two POSIX paths.\<close>

definition os_path_join :: "pystr \<Rightarrow> pystr \<Rightarrow> pystr" where
  "os_path_join a b =
     (if startswith b (lit ''/'') then b
      else if a = [] \<or> endswith a (lit ''/'') then a @ b
      else a @ lit ''/'' @ b)"

definition AUDIO_RECORD_PATH :: pystr where
  "AUDIO_RECORD_PATH = os_path_join FILE_SAVE_PATH (lit ''audio_recordings'')"

text \<open>
  \<open>start_continuous_capture\<close> refuses when the flag is set; otherwise it stores the
  interval, sets the flag and starts one \<open>capture_loop\<close> thread.
\<close>

definition start_continuous_capture :: "env \<Rightarrow> pyfloat \<Rightarrow> device \<Rightarrow> device \<times> bool \<times> pystr" where
  "start_continuous_capture e interval d =
     (if continuous_capture d then (d, False, msg_already_capturing)
      else (d\<lparr>capture_interval := interval, continuous_capture := True,
               capture_threads := Suc (capture_threads d)\<rparr>,
            True, msg_capture_started (float_format e interval)))"

definition stop_continuous_capture :: "device \<Rightarrow> device \<times> bool \<times> pystr" where
  "stop_continuous_capture d = (d\<lparr>continuous_capture := False\<rparr>, True, msg_capture_stopped)"

definition control_led :: "env \<Rightarrow> pystr \<Rightarrow> device \<Rightarrow> device \<times> bool \<times> pystr" where
  "control_led e state d =
     (if \<not> GPIO_AVAILABLE e then (d, False, msg_gpio_unavailable)
      else if lower state = lit ''on'' then
        (case gpio_output_fault e of
           Some m \<Rightarrow> (d, False, m)
         | None \<Rightarrow> (d\<lparr>led := True\<rparr>, True, msg_led_on))
      else if lower state = lit ''off'' then
        (case gpio_output_fault e of
           Some m \<Rightarrow> (d, False, m)
         | None \<Rightarrow> (d\<lparr>led := False\<rparr>, True, msg_led_off))
      else (d, False, msg_invalid_led_state))"

definition start_audio_recording :: "env \<Rightarrow> device \<Rightarrow> device \<times> bool \<times> pystr" where
  "start_audio_recording e d =
     (if is_audio_recording d then (d, False, msg_already_recording)
      else case audio_open_fault e of
             Some m \<Rightarrow> (d, False, m)
           | None \<Rightarrow>
               (d\<lparr>is_audio_recording := True, audio_threads := Suc (audio_threads d)\<rparr>,
                True, msg_recording_started))"

definition stop_audio_recording :: "env \<Rightarrow> device \<Rightarrow> device \<times> bool \<times> pystr" where
  "stop_audio_recording e d =
     (if \<not> is_audio_recording d then (d, False, msg_no_recording)
      else case audio_save_fault e of
             Some m \<Rightarrow> (d\<lparr>is_audio_recording := False\<rparr>, False, m)
           | None \<Rightarrow>
               (d\<lparr>is_audio_recording := False\<rparr>, True,
                msg_recording_saved
                  (os_path_join AUDIO_RECORD_PATH
                     (lit ''recording_'' @ timestamp e @ lit ''.wav''))))"

text \<open>
  \<open>hdmi_play_video\<close> terminates the player it holds, if any, and then starts a new
  one; when starting raises, the handle of the terminated player stays in place.
\<close>

definition hdmi_play_video :: "env \<Rightarrow> pystr \<Rightarrow> device \<Rightarrow> device \<times> bool \<times> pystr" where
  "hdmi_play_video e filepath d =
     (if \<not> path_exists e filepath then (d, False, msg_file_missing)
      else
        let d1 = (case hdmi_player_process d of
                    Some h \<Rightarrow> d\<lparr>terminated := terminated d @ [h]\<rparr>
                  | None \<Rightarrow> d)
        in case popen e of
             Inl m \<Rightarrow> (d1, False, m)
           | Inr h \<Rightarrow> (d1\<lparr>hdmi_player_process := Some h\<rparr>, True, msg_hdmi_playing filepath))"

definition hdmi_stop_video :: "device \<Rightarrow> device \<times> bool \<times> pystr" where
  "hdmi_stop_video d =
     (case hdmi_player_process d of
        Some h \<Rightarrow>
          (d\<lparr>terminated := terminated d @ [h], hdmi_player_process := None\<rparr>,
           True, msg_hdmi_stopped)
      | None \<Rightarrow> (d, False, msg_no_video))"

subsection \<open>The dispatcher\<close>

text \<open>
  The body of the \<open>try\<close> of \<open>udp_command_server\<close>: the chain of comparisons of the
  command's code with the codes of the table, in the order of the source. A code that
  matches no branch falls to the last one. Every key the source subscripts the table
  with is a key of the table, so no comparison raises.
\<close>

definition dispatch :: "env \<Rightarrow> pystr \<Rightarrow> pystr list \<Rightarrow> device \<Rightarrow> device \<times> bool \<times> pystr" where
  "dispatch e cmd_code parts d =
     (if Inr cmd_code = mapping_at (lit ''capture'') then
        (d, port_capture_image e)
      else if Inr cmd_code = mapping_at (lit ''continuous_capture'') then
        (case parts of
           _ # p1 # _ \<Rightarrow>
             (case py_float e p1 of
                Some interval \<Rightarrow> start_continuous_capture e interval d
              | None \<Rightarrow> (d, False, msg_invalid_interval))
         | _ \<Rightarrow> start_continuous_capture e (Finite 1) d)
      else if Inr cmd_code = mapping_at (lit ''continuous_capture stop'') then
        stop_continuous_capture d
      else if Inr cmd_code = mapping_at (lit ''record'') then
        (case parts of
           _ # p1 # _ \<Rightarrow>
             (case py_float e p1 of
                Some duration \<Rightarrow> (d, port_record_video e duration)
              | None \<Rightarrow> (d, False, msg_invalid_duration))
         | _ \<Rightarrow> (d, False, msg_need_duration))
      else if Inr cmd_code = mapping_at (lit ''set_time'') then
        (case parts of
           _ # p1 # ps \<Rightarrow> (d, port_set_system_time e (join (lit '' '') (p1 # ps)))
         | _ \<Rightarrow> (d, False, msg_need_time))
      else if Inr cmd_code = mapping_at (lit ''led_on'') then
        control_led e (lit ''on'') d
      else if Inr cmd_code = mapping_at (lit ''led_off'') then
        control_led e (lit ''off'') d
      else if Inr cmd_code = mapping_at (lit ''display'') then
        (case parts of
           _ # p1 # _ \<Rightarrow> (d, port_display_file e p1)
         | _ \<Rightarrow> (d, False, msg_need_path))
      else if Inr cmd_code = mapping_at (lit ''serial'') then
        (case parts of
           _ # p1 # p2 # ps \<Rightarrow> (d, port_serial_send e p1 (join (lit '' '') (p2 # ps)))
         | _ \<Rightarrow> (d, False, msg_need_serial))
      else if Inr cmd_code = mapping_at (lit ''audio_record_start'') then
        start_audio_recording e d
      else if Inr cmd_code = mapping_at (lit ''audio_record_stop'') then
        stop_audio_recording e d
      else if Inr cmd_code = mapping_at (lit ''audio_play'') then
        (case parts of
           _ # p1 # _ \<Rightarrow> (d, port_play_audio e p1)
         | _ \<Rightarrow> (d, False, msg_need_audio))
      else if Inr cmd_code = mapping_at (lit ''run_script oled'') then
        (d, port_run_oled_script e)
      else if Inr cmd_code = mapping_at (lit ''hdmi_play'') then
        (case parts of
           _ # p1 # _ \<Rightarrow> hdmi_play_video e p1 d
         | _ \<Rightarrow> (d, False, msg_need_video))
      else if Inr cmd_code = mapping_at (lit ''hdmi_stop'') then
        hdmi_stop_video d
      else if Inr cmd_code = mapping_at (lit ''tcp_send_file'') then
        (case parts of
           _ # p1 # p2 # _ \<Rightarrow> (d, port_tcp_send_file e p1 p2)
         | _ \<Rightarrow> (d, False, msg_need_target))
      else (d, False, msg_unknown_command))"

text \<open>
  One round of the loop of \<open>udp_command_server\<close>, from the datagram to the state
  after it and the response sent. Decoding and \<open>get_command_code\<close> stand before the
  \<open>try\<close>: what they raise is not caught and ends the loop (\<open>Inl\<close>).
\<close>

definition udp_command_server :: "env \<Rightarrow> device \<Rightarrow> bytes \<Rightarrow> exn + device \<times> pystr" where
  "udp_command_server e d data =
     (case utf8_decode data of
        None \<Rightarrow> Inl UnicodeDecodeError
      | Some s \<Rightarrow>
          (case get_command_code (strip s) of
             Inl x \<Rightarrow> Inl x
           | Inr cmd_code \<Rightarrow>
               (case dispatch e cmd_code (split (strip s)) d of
                  (d', success, result) \<Rightarrow>
                    Inr (d', cmd_code @ lit '':'' @
                             (if success then lit ''SUCCESS'' else lit ''ERROR'') @
                             lit '':'' @ result))))"

subsection \<open>The state at start-up and an environment for the examples\<close>

text \<open>
  The values the module-level assignments of the source give the flags: nothing runs,
  the interval is \<open>1.0\<close>, the LED pin is low.
\<close>

definition initial_device :: device where
  "initial_device =
     \<lparr>continuous_capture = False, capture_interval = Finite 1, capture_threads = 0,
      is_audio_recording = False, audio_threads = 0, hdmi_player_process = None,
      terminated = [], led = False\<rparr>"

text \<open>
  The examples run in an environment where the GPIO library is present, no port call
  raises, no queried path exists and a started process gets handle 1. Its \<open>float()\<close>
  and float formatting are Python's on the three literals the examples send.
\<close>

definition bench_float :: "pystr \<Rightarrow> pyfloat option" where
  "bench_float s =
     (if s = lit ''2'' then Some (Finite 2)
      else if s = lit ''0'' then Some (Finite 0)
      else if s = lit ''-1'' then Some (Finite (- 1))
      else None)"

definition bench_format :: "pyfloat \<Rightarrow> pystr" where
  "bench_format x =
     (if x = Finite 2 then lit ''2.0''
      else if x = Finite 0 then lit ''0.0''
      else if x = Finite (- 1) then lit ''-1.0''
      else lit ''1.0'')"

definition bench_env :: env where
  "bench_env =
     \<lparr>GPIO_AVAILABLE = True, py_float = bench_float, float_format = bench_format,
      timestamp = lit ''20250101_120000'', path_exists = (\<lambda>p. False),
      gpio_output_fault = None, camera_fault = None, audio_open_fault = None,
      audio_save_fault = None, popen = Inr 1, serial_available = (\<lambda>p. False),
      serial_write_fault = None, system_return_code = (\<lambda>c. 0),
      port_capture_image = (False, []), port_record_video = (\<lambda>x. (False, [])),
      port_set_system_time = (\<lambda>s. (False, [])), port_display_file = (\<lambda>p. (False, [])),
      port_serial_send = (\<lambda>p x. (False, [])), port_play_audio = (\<lambda>p. (False, [])),
      port_run_oled_script = (False, []), port_tcp_send_file = (\<lambda>a p. (False, []))\<rparr>"

text \<open>States and an environment for the examples in which a task is already running.\<close>

definition capturing_device :: device where
  "capturing_device = initial_device\<lparr>continuous_capture := True, capture_threads := 1\<rparr>"

definition recording_device :: device where
  "recording_device = initial_device\<lparr>is_audio_recording := True, audio_threads := 1\<rparr>"

definition playing_device :: device where
  "playing_device = initial_device\<lparr>hdmi_player_process := Some 7\<rparr>"

definition media_env :: env where
  "media_env = bench_env\<lparr>path_exists := (\<lambda>p. True)\<rparr>"


section \<open>The plain-text variant\<close>

text \<open>
  \<open>s.split(maxsplit=n)\<close>: at most \<open>n\<close> splits; what is left after them is the last
  part, with its leading whitespace removed.
\<close>

fun split_max :: "nat \<Rightarrow> pystr \<Rightarrow> pystr list" where
  "split_max 0 s = (let r = dropWhile is_space s in if r = [] then [] else [r])"
| "split_max (Suc n) s =
     (let r = dropWhile is_space s
      in if r = [] then []
         else takeWhile (\<lambda>c. \<not> is_space c) r #
              split_max n (dropWhile (\<lambda>c. \<not> is_space c) r))"

text \<open>\<open>str(n)\<close> of an integer, as an f-string prints a return code.\<close>

function dec_nat :: "nat \<Rightarrow> pystr" where
  "dec_nat n = (if n < 10 then [48 + n] else dec_nat (n div 10) @ [48 + n mod 10])"
  by pat_completeness auto

termination
  by (relation "measure id") auto

declare dec_nat.simps [simp del]

definition str_int :: "int \<Rightarrow> pystr" where
  "str_int i = (if i < 0 then 45 # dec_nat (nat (- i)) else dec_nat (nat i))"

definition oled_script :: pystr where
  "oled_script = lit ''/home/ppt5517/OLED_Module_Code/RaspberryPi/python/example/ppt.py''"

subsection \<open>Responses\<close>

definition txt_capture_stopped :: pystr where
  "txt_capture_stopped = [36830, 32493, 25293, 25668, 20572, 27490]"

definition txt_interval_not_positive :: pystr where
  "txt_interval_not_positive = lit ''ERROR:'' @ [38388, 38548, 26102, 38388, 24517, 39035, 22823, 20110, 48]"

definition txt_invalid_interval :: pystr where
  "txt_invalid_interval = lit ''ERROR:'' @ [26080, 25928, 30340, 38388, 38548, 26102, 38388]"

definition txt_invalid_capture_command :: pystr where
  "txt_invalid_capture_command =
     lit ''ERROR:'' @ [26080, 25928, 30340, 36830, 32493, 25293, 25668, 21629, 20196]"

definition txt_duration_not_positive :: pystr where
  "txt_duration_not_positive = lit ''ERROR:'' @ [26102, 38271, 24517, 39035, 22823, 20110, 48]"

definition txt_invalid_duration :: pystr where
  "txt_invalid_duration = lit ''ERROR:'' @ [26080, 25928, 26102, 38271]"

definition txt_record_format :: pystr where
  "txt_record_format =
     lit ''ERROR:'' @ [26684, 24335, 24212, 20026, 39] @ lit ''record <'' @ [26102, 38271, 62, 39]"

definition txt_script_ok :: pystr where
  "txt_script_ok = lit ''SUCCESS:'' @ [33050, 26412, 25191, 34892, 25104, 21151]"

definition txt_script_failed :: "int \<Rightarrow> pystr" where
  "txt_script_failed rc =
     lit ''ERROR:'' @ [33050, 26412, 25191, 34892, 22833, 36133, 65292, 36820, 22238, 30721] @
     str_int rc"

definition txt_gpio_unavailable :: pystr where
  "txt_gpio_unavailable = lit ''ERROR:GPIO'' @ [19981, 21487, 29992]"

definition txt_unsupported_format :: pystr where
  "txt_unsupported_format = lit ''ERROR:'' @ [19981, 25903, 25345, 30340, 25991, 20214, 26684, 24335]"

definition txt_file_missing :: pystr where
  "txt_file_missing = lit ''ERROR:'' @ [25991, 20214, 19981, 23384, 22312]"

definition txt_invalid_display :: pystr where
  "txt_invalid_display = lit ''ERROR:'' @ [26080, 25928, 30340, 26174, 31034, 21629, 20196]"

definition txt_serial_failed :: "pystr \<Rightarrow> pystr" where
  "txt_serial_failed m = lit ''ERROR:'' @ [20018, 21475, 21457, 36865, 22833, 36133] @ lit '' - '' @ m"

definition txt_serial_unavailable :: "pystr \<Rightarrow> pystr" where
  "txt_serial_unavailable port =
     lit ''ERROR:'' @ [20018, 21475, 32] @ port @ [32, 19981, 21487, 29992]"

definition txt_serial_format :: pystr where
  "txt_serial_format =
     lit ''ERROR:'' @ [26080, 25928, 30340, 20018, 21475, 21629, 20196, 26684, 24335, 65292, 24212, 20026, 32] @
     lit [CHR 0x27] @ lit ''serial [port] [data]'' @ lit [CHR 0x27]"

definition txt_audio_missing :: pystr where
  "txt_audio_missing = lit ''ERROR:'' @ [38899, 39057, 25991, 20214, 19981, 23384, 22312]"

definition txt_invalid_play :: pystr where
  "txt_invalid_play = lit ''ERROR:'' @ [26080, 25928, 30340, 25773, 25918, 21629, 20196, 26684, 24335]"

definition txt_unknown_command :: pystr where
  "txt_unknown_command = lit ''ERROR:'' @ [26410, 30693, 21629, 20196]"

definition txt_processing_error :: "pystr \<Rightarrow> pystr" where
  "txt_processing_error m =
     lit ''ERROR:'' @ [22788, 29702, 21629, 20196, 26102, 20986, 38169] @ lit '' - '' @ m"

subsection \<open>The handler\<close>

definition is_image_path :: "pystr \<Rightarrow> bool" where
  "is_image_path p =
     (endswith (lower p) (lit ''.png'') \<or> endswith (lower p) (lit ''.jpg'') \<or>
      endswith (lower p) (lit ''.jpeg''))"

definition is_video_path :: "pystr \<Rightarrow> bool" where
  "is_video_path p =
     (endswith (lower p) (lit ''.mp4'') \<or> endswith (lower p) (lit ''.avi'') \<or>
      endswith (lower p) (lit ''.h264''))"

text \<open>
  Starting the capture thread of the plain-text variant: the flag is set and a thread
  is started, whatever the flag was.
\<close>

definition spawn_capture :: "device \<Rightarrow> device" where
  "spawn_capture d = d\<lparr>continuous_capture := True, capture_threads := Suc (capture_threads d)\<rparr>"

text \<open>
  The body of the \<open>try\<close> of \<open>handle_udp_command\<close> in the plain-text variant, with its
  \<open>except\<close>: the branches in the order of the source, the response starting as
  \<open>'OK'\<close>. A capability call that raises gives the response of the \<open>except\<close> clause
  that catches it.
\<close>

definition command_body :: "env \<Rightarrow> device \<Rightarrow> pystr \<Rightarrow> device \<times> pystr" where
  "command_body e d command =
     (if command = lit ''capture'' then
        (case camera_fault e of
           Some m \<Rightarrow> (d, txt_processing_error m)
         | None \<Rightarrow>
             (d, lit ''CAPTURED:'' @ FILE_SAVE_PATH @ lit ''capture_'' @ timestamp e @ lit ''.jpg''))
      else if startswith command (lit ''continuous_capture'') then
        (case split command of
           [_] \<Rightarrow> (spawn_capture d, lit ''OK'')
         | [_, p1] \<Rightarrow>
             if p1 = lit ''stop'' then (d\<lparr>continuous_capture := False\<rparr>, txt_capture_stopped)
             else (case py_float e p1 of
                     Some interval \<Rightarrow>
                       if float_gt0 interval
                       then (spawn_capture (d\<lparr>capture_interval := interval\<rparr>), lit ''OK'')
                       else (d, txt_interval_not_positive)
                   | None \<Rightarrow> (d, txt_invalid_interval))
         | _ \<Rightarrow> (d, txt_invalid_capture_command))
      else if startswith command (lit ''record'') then
        (case split command of
           [p0, p1] \<Rightarrow>
             if p0 = lit ''record'' then
               (case py_float e p1 of
                  Some duration \<Rightarrow>
                    if float_le0 duration then (d, txt_duration_not_positive)
                    else (case camera_fault e of
                            Some m \<Rightarrow> (d, lit ''RECORDING_ERROR:'' @ m)
                          | None \<Rightarrow>
                              (d, lit ''RECORDING_COMPLETE:'' @ FILE_SAVE_PATH @ lit ''video_'' @
                                  timestamp e @ lit ''.mp4''))
                | None \<Rightarrow> (d, txt_invalid_duration))
             else (d, txt_record_format)
         | _ \<Rightarrow> (d, txt_record_format))
      else if strip command = lit ''run_script oled'' then
        (let return_code = system_return_code e (lit ''/usr/bin/python3 '' @ oled_script)
         in if return_code = 0 then (d, txt_script_ok) else (d, txt_script_failed return_code))
      else if command = lit ''led_on'' then
        (if GPIO_AVAILABLE e then
           (case gpio_output_fault e of
              Some m \<Rightarrow> (d, txt_processing_error m)
            | None \<Rightarrow> (d\<lparr>led := True\<rparr>, lit ''OK''))
         else (d, txt_gpio_unavailable))
      else if command = lit ''led_off'' then
        (if GPIO_AVAILABLE e then
           (case gpio_output_fault e of
              Some m \<Rightarrow> (d, txt_processing_error m)
            | None \<Rightarrow> (d\<lparr>led := False\<rparr>, lit ''OK''))
         else (d, txt_gpio_unavailable))
      else if startswith command (lit ''display'') then
        (case split command of
           [_, filepath] \<Rightarrow>
             if path_exists e filepath then
               (if is_image_path filepath \<or> is_video_path filepath then
                  (case popen e of
                     Inl m \<Rightarrow> (d, txt_processing_error m)
                   | Inr h \<Rightarrow> (d, lit ''OK''))
                else (d, txt_unsupported_format))
             else (d, txt_file_missing)
         | _ \<Rightarrow> (d, txt_invalid_display))
      else if startswith command (lit ''serial'') then
        (case split_max 3 command of
           [_, port, _, payload] \<Rightarrow>
             if serial_available e port then
               (case serial_write_fault e of
                  Some m \<Rightarrow> (d, txt_serial_failed m)
                | None \<Rightarrow> (d, lit ''SERIAL_SENT:'' @ port @ lit '':'' @ payload))
             else (d, txt_serial_unavailable port)
         | _ \<Rightarrow> (d, txt_serial_format))
      else if command = lit ''audio_record_start'' then
        (d, lit ''AUDIO_RECORDING_STARTED:'' @ os_path_join AUDIO_RECORD_PATH (lit ''recording.wav''))
      else if command = lit ''audio_record_stop'' then
        (d, lit ''AUDIO_RECORDING_STOPPED'')
      else if startswith command (lit ''audio_play'') then
        (case split command of
           [_, audio_file] \<Rightarrow>
             if path_exists e audio_file then (d, lit ''AUDIO_PLAYING:'' @ audio_file)
             else (d, txt_audio_missing)
         | _ \<Rightarrow> (d, txt_invalid_play))
      else (d, txt_unknown_command))"

text \<open>
  One round of the loop of \<open>handle_udp_command\<close> in the plain-text variant. The
  datagram is decoded before the \<open>try\<close>: a \<open>UnicodeDecodeError\<close> is caught by nothing
  and ends the loop.
\<close>

definition handle_udp_command :: "env \<Rightarrow> device \<Rightarrow> bytes \<Rightarrow> exn + device \<times> pystr" where
  "handle_udp_command e d data =
     (case utf8_decode data of
        None \<Rightarrow> Inl UnicodeDecodeError
      | Some s \<Rightarrow> Inr (command_body e d (strip s)))"

section \<open>Storage\<close>

text \<open>
  The file system the receivers write to: a tree of directories and files, a node
  being named by the list of path components that leads to it from the root. Paths are
  resolved as POSIX does without symbolic links: every component but the last must
  lead through an existing directory, an empty component and \<open>.\<close> stay where they
  are, and \<open>..\<close> goes to the parent. All paths the receivers open are absolute.
  Permissions and the space left on the device are not modelled: a write to a file
  that could be opened goes through.
\<close>

datatype node = Dir | File bytes

type_synonym fs = "pystr list \<Rightarrow> node option"

datatype oserror = ENOENT | ENOTDIR | EISDIR

text \<open>\<open>s.split(sep)\<close> for a separator of one character.\<close>

fun split_on :: "nat \<Rightarrow> pystr \<Rightarrow> pystr list" where
  "split_on c [] = [[]]"
| "split_on c (x # xs) =
     (if x = c then [] # split_on c xs
      else case split_on c xs of
             y # ys \<Rightarrow> (x # y) # ys
           | [] \<Rightarrow> [[x]])"

fun walk :: "fs \<Rightarrow> pystr list \<Rightarrow> pystr list \<Rightarrow> oserror + pystr list" where
  "walk t cur [] = (case t cur of Some Dir \<Rightarrow> Inr cur | Some (File _) \<Rightarrow> Inl ENOTDIR | None \<Rightarrow> Inl ENOENT)"
| "walk t cur (c # cs) =
     (case t cur of
        Some Dir \<Rightarrow>
          if c = [] \<or> c = lit ''.'' then walk t cur cs
          else if c = lit ''..'' then walk t (butlast cur) cs
          else walk t (cur @ [c]) cs
      | Some (File _) \<Rightarrow> Inl ENOTDIR
      | None \<Rightarrow> Inl ENOENT)"

text \<open>
  The node that \<open>open(path, 'wb')\<close> creates or truncates, or the error it raises.
  \<open>named\<close> are the components of the path without the empty ones that trailing
  slashes leave at its end. The directories that lead to the last of them must exist.
  Then a path that ends in a slash is refused as a directory, whether or not its last
  component exists (so does Linux when it is asked to create), and so is a path that
  ends in \<open>.\<close> or \<open>..\<close> or names an existing directory.
\<close>

definition open_wb :: "fs \<Rightarrow> pystr \<Rightarrow> oserror + pystr list" where
  "open_wb t path =
     (let comps = split_on 47 path;
          named = rev (dropWhile (\<lambda>c. c = []) (rev comps))
      in if named = [] then (if path = [] then Inl ENOENT else Inl EISDIR)
         else case walk t [] (butlast named) of
                Inl err \<Rightarrow> Inl err
              | Inr parent \<Rightarrow>
                  if last comps = [] \<or> last named = lit ''.'' \<or> last named = lit ''..''
                  then Inl EISDIR
                  else case t (parent @ [last named]) of
                         Some Dir \<Rightarrow> Inl EISDIR
                       | _ \<Rightarrow> Inr (parent @ [last named]))"

text \<open>
  The node of an existing file that \<open>open(path, 'rb')\<close> reads, with its content.
  The code that reads catches whatever is raised and does not look at the error.
\<close>

definition open_rb :: "fs \<Rightarrow> pystr \<Rightarrow> oserror + pystr list \<times> bytes" where
  "open_rb t path =
     (case open_wb t path of
        Inl err \<Rightarrow> Inl err
      | Inr target \<Rightarrow>
          (case t target of
             Some (File content) \<Rightarrow> Inr (target, content)
           | _ \<Rightarrow> Inl ENOENT))"

text \<open>\<open>os.rename\<close> of a file: the new name takes the node, the old name is gone.\<close>

definition rename_file :: "fs \<Rightarrow> pystr \<Rightarrow> pystr \<Rightarrow> oserror + fs" where
  "rename_file t src dst =
     (case open_rb t src of
        Inl err \<Rightarrow> Inl err
      | Inr (from_node, content) \<Rightarrow>
          (case open_wb t dst of
             Inl err \<Rightarrow> Inl err
           | Inr to_node \<Rightarrow> Inr ((t(from_node := None))(to_node \<mapsto> File content))))"

text \<open>
  The directories that exist once the module has run its two \<open>os.makedirs\<close> calls.
\<close>

definition save_dir :: "pystr list" where
  "save_dir = [lit ''home'', lit ''ppt5517'', lit ''received_files'']"

definition startup_fs :: fs where
  "startup_fs =
     [[] \<mapsto> Dir,
      [lit ''home''] \<mapsto> Dir,
      [lit ''home'', lit ''ppt5517''] \<mapsto> Dir,
      save_dir \<mapsto> Dir,
      save_dir @ [lit ''audio_recordings''] \<mapsto> Dir]"

text \<open>
  \<open>str(e)\<close> of the \<open>OSError\<close> that a path raised, for a path that \<open>repr\<close> prints as
  it is between quotes. The receivers take the text of an error as a parameter; this
  one serves the examples.
\<close>

definition posix_error_text :: "oserror \<Rightarrow> pystr \<Rightarrow> pystr" where
  "posix_error_text err path =
     (case err of
        ENOENT \<Rightarrow> lit ''[Errno 2] No such file or directory: ''
      | ENOTDIR \<Rightarrow> lit ''[Errno 20] Not a directory: ''
      | EISDIR \<Rightarrow> lit ''[Errno 21] Is a directory: '') @
     lit [CHR 0x27] @ path @ lit [CHR 0x27]"

section \<open>The datagram file receiver\<close>

text \<open>
  \<open>file_receiver\<close> is the same in the plain-text and in the binary variant. The name
  is what stands before the first NUL among the first 100 bytes, decoded with the
  ill-formed bytes dropped, and stripped.
\<close>

definition msg_invalid_filename :: pystr where
  "msg_invalid_filename = [26080, 25928, 25991, 20214, 21517]"

definition file_name :: "bytes \<Rightarrow> pystr" where
  "file_name data = strip (utf8_decode_ignore (takeWhile (\<lambda>b. b \<noteq> 0) (take 100 data)))"

text \<open>
  One round of the loop of \<open>file_receiver\<close>: the file system after the datagram and
  the reply (the text that is sent encoded).
\<close>

definition file_receiver :: "(oserror \<Rightarrow> pystr \<Rightarrow> pystr) \<Rightarrow> fs \<Rightarrow> bytes \<Rightarrow> fs \<times> pystr" where
  "file_receiver error_text t data =
     (let filename = file_name data in
      if filename = [] then (t, lit ''ERROR:'' @ msg_invalid_filename)
      else
        let save_path = os_path_join FILE_SAVE_PATH filename in
        case open_wb t save_path of
          Inl err \<Rightarrow> (t, lit ''ERROR:'' @ error_text err save_path)
        | Inr target \<Rightarrow> (t(target \<mapsto> File (drop 100 data)), lit ''FILE_SAVED''))"

text \<open>
  The name field as the sender of the binary variant builds it
  (\<open>name.ljust(100, b'\x00')[:100]\<close>).
\<close>

definition name_field :: "bytes \<Rightarrow> bytes" where
  "name_field name = take 100 (name @ replicate (100 - length name) 0)"

section \<open>The stream file transfer of the final variant\<close>

subsection \<open>The connection\<close>

text \<open>
  What a connection will deliver: the segments of bytes still to arrive, and what
  follows them, the end of the stream (the peer closed: \<open>recv\<close> returns no bytes) or
  a failure (\<open>recv\<close> raises, as on a reset). \<open>recv(n)\<close> returns at most \<open>n\<close> bytes
  of the first segment that is not empty and leaves the rest of it to be read.
  \<open>sent\<close> collects the messages given to \<open>sendall\<close>, as text.
\<close>

datatype ending = Eof | Fault pystr

record conn =
  pending :: "bytes list"
  ending :: ending
  sent :: "pystr list"

definition recv :: "nat \<Rightarrow> conn \<Rightarrow> (pystr + bytes) \<times> conn" where
  "recv n c =
     (case dropWhile (\<lambda>s. s = []) (pending c) of
        [] \<Rightarrow>
          (case ending c of
             Eof \<Rightarrow> (Inr [], c\<lparr>pending := []\<rparr>)
           | Fault m \<Rightarrow> (Inl m, c\<lparr>pending := []\<rparr>))
      | seg # rest \<Rightarrow> (Inr (take n seg), c\<lparr>pending := drop n seg # rest\<rparr>))"

definition sendall :: "conn \<Rightarrow> pystr \<Rightarrow> conn" where
  "sendall c m = c\<lparr>sent := sent c @ [m]\<rparr>"

text \<open>\<open>struct.unpack('>I', b)\<close>: the bytes as a big-endian number.\<close>

definition be32 :: "bytes \<Rightarrow> nat" where
  "be32 bs = foldl (\<lambda>a b. a * 256 + unat b) 0 bs"

subsection \<open>Guessing the type of a stored file\<close>

text \<open>
  \<open>guess_file_type\<close> reads the first four bytes of the file and compares them with
  the signatures; \<open>header[8:12]\<close> is a slice of those four bytes. A file whose type
  is recognised is renamed. Whatever raises on the way leaves the path as it was.
\<close>

definition guess_file_type :: "pystr \<Rightarrow> fs \<Rightarrow> pystr \<Rightarrow> fs \<times> pystr" where
  "guess_file_type ts t filepath =
     (case open_rb t filepath of
        Inl err \<Rightarrow> (t, filepath)
      | Inr (file_node, content) \<Rightarrow>
          let header = take 4 content;
              new_path =
                (if startswith header [0xFF, 0xD8, 0xFF] then
                   os_path_join FILE_SAVE_PATH (lit ''image_'' @ ts @ lit ''.jpg'')
                 else if startswith header (0x89 # blit ''PNG'') then
                   os_path_join FILE_SAVE_PATH (lit ''image_'' @ ts @ lit ''.png'')
                 else if startswith header [0x00, 0x00, 0x00, 0x20] then
                   os_path_join FILE_SAVE_PATH (lit ''video_'' @ ts @ lit ''.mp4'')
                 else if startswith header (blit ''RIFF'') \<and>
                         take 4 (drop 8 header) = blit ''WAVE'' then
                   os_path_join AUDIO_RECORD_PATH (lit ''audio_'' @ ts @ lit ''.wav'')
                 else filepath)
          in if new_path \<noteq> filepath then
               (case rename_file t filepath new_path of
                  Inl err \<Rightarrow> (t, filepath)
                | Inr t' \<Rightarrow> (t', new_path))
             else (t, new_path))"

subsection \<open>Receiving a file\<close>

text \<open>
  The loop that receives the payload: \<open>received\<close> counts the bytes, \<open>written\<close> is
  what has been written to the file. It ends when the declared size is reached, when
  a chunk comes back empty, or when \<open>recv\<close> raises.
\<close>

datatype loop_end = Filled | ZeroChunk | Raised pystr

function recv_loop :: "nat \<Rightarrow> nat \<Rightarrow> bytes \<Rightarrow> conn \<Rightarrow> loop_end \<times> nat \<times> bytes \<times> conn" where
  "recv_loop file_size received written c =
     (if received < file_size then
        (case recv (min 4096 (file_size - received)) c of
           (Inl m, c') \<Rightarrow> (Raised m, received, written, c')
         | (Inr chunk, c') \<Rightarrow>
             if chunk = [] then (ZeroChunk, received, written, c')
             else recv_loop file_size (received + length chunk) (written @ chunk) c')
      else (Filled, received, written, c))"
  by pat_completeness auto

termination
  by (relation "measure (\<lambda>(file_size, received, written, c). file_size - received)")
     (auto simp: neq_Nil_conv)

declare recv_loop.simps [simp del]

definition msg_bad_header :: pystr where
  "msg_bad_header = [26080, 25928, 30340, 25991, 20214, 22836, 38271, 24230]"

definition msg_incomplete :: "nat \<Rightarrow> nat \<Rightarrow> pystr" where
  "msg_incomplete received file_size =
     [25991, 20214, 25509, 25910, 19981, 23436, 25972, 32, 40] @ dec_nat received @ [47] @
     dec_nat file_size @ [32, 23383, 33410, 41]"

definition upload_path :: "pystr \<Rightarrow> pystr" where
  "upload_path ts = os_path_join FILE_SAVE_PATH (lit ''upload_'' @ ts @ lit ''.bin'')"

text \<open>The \<open>except\<close> clause: the error is sent to the peer and the result is \<open>None\<close>.\<close>

definition failed :: "fs \<Rightarrow> conn \<Rightarrow> pystr \<Rightarrow> fs \<times> conn \<times> pystr option" where
  "failed t c m = (t, sendall c (lit ''ERROR:'' @ m), None)"

text \<open>
  \<open>handle_tcp_file_transfer\<close>, from the file system and the connection to both after
  the session and the path returned. \<open>ts\<close> and \<open>ts'\<close> are the times read for the name
  of the upload and, later, for the name given by its type.
\<close>

definition handle_tcp_file_transfer ::
  "(oserror \<Rightarrow> pystr \<Rightarrow> pystr) \<Rightarrow> pystr \<Rightarrow> pystr \<Rightarrow> fs \<Rightarrow> conn \<Rightarrow> fs \<times> conn \<times> pystr option" where
  "handle_tcp_file_transfer error_text ts ts' t c =
     (case recv 6 c of
        (Inl m, c1) \<Rightarrow> failed t c1 m
      | (Inr header, c1) \<Rightarrow>
          if length header \<noteq> 6 then failed t c1 msg_bad_header
          else
            (case open_wb t (upload_path ts) of
               Inl err \<Rightarrow> failed t c1 (error_text err (upload_path ts))
             | Inr target \<Rightarrow>
                 (case recv_loop (be32 (drop 2 header)) 0 [] c1 of
                    (Raised m, received, written, c2) \<Rightarrow>
                      failed (t(target \<mapsto> File written)) c2 m
                  | (_, received, written, c2) \<Rightarrow>
                      if received = be32 (drop 2 header) then
                        (case guess_file_type ts' (t(target \<mapsto> File written)) (upload_path ts) of
                           (t', new_path) \<Rightarrow>
                             (t', sendall c2 (lit ''FILE_TRANSFER_SUCCESS''), Some new_path))
                      else failed (t(target := None)) c2
                             (msg_incomplete received (be32 (drop 2 header))))))"

subsection \<open>Sessions for the examples\<close>

text \<open>
  Three senders that declare and send a file: one sends the four bytes it declared,
  in two segments; one sends three of four and closes; one sends the twenty bytes of
  a WAV header. \<open>example_time\<close> is the time stamp of the names.
\<close>

definition example_time :: pystr where
  "example_time = lit ''20250101_120000''"



definition wav_bytes :: bytes where
  "wav_bytes = blit ''RIFF'' @ [0x24, 0, 0, 0] @ blit ''WAVEfmt '' @ [0x10, 0, 0, 0]"

definition wav_conn :: conn where
  "wav_conn = \<lparr>pending = [[0x30, 0xC1, 0, 0, 0, 20], wav_bytes], ending = Eof, sent = []\<rparr>"

definition upload_node :: "pystr list" where
  "upload_node = save_dir @ [lit ''upload_20250101_120000.bin'']"

section \<open>The binary variant\<close>

text \<open>
  The commands of the binary variant: a primary code and a sub-code, each of two
  bytes, big-endian, and a payload. \<open>COMMANDS\<close> maps the primary codes to names and
  four of the names to their tables of sub-commands.
\<close>

definition be16 :: "bytes \<Rightarrow> nat" where
  "be16 bs = foldl (\<lambda>a b. a * 256 + unat b) 0 bs"

definition COMMANDS :: "(nat \<times> pystr) list" where
  "COMMANDS =
     [(0x0A5F, lit ''display''), (0x14BD, lit ''control''), (0x0011, lit ''capture''),
      (0x0022, lit ''storage_clear''), (0x2E9A, lit ''data_return''),
      (0x42EB, lit ''time_sync'')]"

definition SUB_COMMANDS :: "(pystr \<times> (nat \<times> pystr) list) list" where
  "SUB_COMMANDS =
     [(lit ''display'', [(1, lit ''display_image''), (2, lit ''play_video'')]),
      (lit ''control'', [(1, lit ''led_on''), (2, lit ''led_off''), (3, lit ''serial_send'')]),
      (lit ''capture'',
         [(1, lit ''single_capture''), (2, lit ''start_continuous''),
          (3, lit ''stop_continuous''), (4, lit ''start_recording''),
          (5, lit ''stop_recording'')]),
      (lit ''data_return'', [(1, lit ''send_file''), (2, lit ''send_status'')])]"

text \<open>\<open>f"{n:04X}"\<close> for a number of two bytes.\<close>

definition hex_digit :: "nat \<Rightarrow> nat" where
  "hex_digit n = (if n < 10 then 48 + n else 55 + n)"

definition hex4 :: "nat \<Rightarrow> pystr" where
  "hex4 n =
     [hex_digit (n div 4096 mod 16), hex_digit (n div 256 mod 16), hex_digit (n div 16 mod 16),
      hex_digit (n mod 16)]"

text \<open>
  What the binary variant reads from outside beyond the environment of the other
  variants: whether \<open>strptime\<close> accepts a time string and whether clearing the storage
  raises (\<open>Some m\<close>: it raises with text \<open>m\<close>), and the text of the
  \<open>UnicodeDecodeError\<close> of a payload.
\<close>

record binary_env = env +
  strptime_fault :: "pystr \<Rightarrow> pystr option"
  storage_clear_fault :: "pystr option"
  decode_error_text :: "bytes \<Rightarrow> pystr"

definition bin_invalid :: pystr where
  "bin_invalid = lit ''ERROR:'' @ [26080, 25928, 25351, 20196]"

definition bin_time_invalid :: "pystr \<Rightarrow> pystr" where
  "bin_time_invalid m = lit ''ERROR:'' @ [26102, 38388, 26684, 24335, 26080, 25928] @ lit '' - '' @ m"

definition bin_clear_failed :: "pystr \<Rightarrow> pystr" where
  "bin_clear_failed m = lit ''ERROR:'' @ [28165, 38500, 23384, 20648, 22833, 36133] @ lit '' - '' @ m"

definition bin_image_missing :: pystr where
  "bin_image_missing = lit ''ERROR:'' @ [22270, 29255, 25991, 20214, 19981, 23384, 22312]"

definition bin_serial_format :: pystr where
  "bin_serial_format =
     lit ''ERROR:'' @ [20018, 21475, 21629, 20196, 26684, 24335, 24212, 20026] @
     lit [CHR 0x27] @ lit ''port:data'' @ lit [CHR 0x27]"

definition bin_invalid_sub :: "nat \<Rightarrow> pystr \<Rightarrow> pystr" where
  "bin_invalid_sub sub_command cmd_name =
     lit ''ERROR:'' @ [26080, 25928, 30340, 23376, 25351, 20196] @ lit '' 0x'' @ hex4 sub_command @
     [32, 23545, 20110, 32] @ cmd_name"

definition bin_unknown :: "nat \<Rightarrow> pystr" where
  "bin_unknown command = lit ''ERROR:'' @ [26410, 30693, 25351, 20196] @ lit '' 0x'' @ hex4 command"

definition bin_too_short :: pystr where
  "bin_too_short = lit ''ERROR:'' @ [25351, 20196, 38271, 24230, 19981, 36275]"

definition bin_processing_error :: "pystr \<Rightarrow> pystr" where
  "bin_processing_error m =
     lit ''ERROR:'' @ [22788, 29702, 25351, 20196, 26102, 20986, 38169] @ lit '' - '' @ m"

text \<open>The handler of one sub-command, with the \<open>except\<close> clause that catches what it raises.\<close>

definition sub_command_body :: "'a binary_env_scheme \<Rightarrow> device \<Rightarrow> pystr \<Rightarrow> bytes \<Rightarrow> device \<times> pystr" where
  "sub_command_body e d sub_cmd_name payload =
     (if sub_cmd_name = lit ''led_on'' then
        (if GPIO_AVAILABLE e then
           (case gpio_output_fault e of
              Some m \<Rightarrow> (d, bin_processing_error m)
            | None \<Rightarrow> (d\<lparr>led := True\<rparr>, lit ''LED_ON''))
         else (d, txt_gpio_unavailable))
      else if sub_cmd_name = lit ''led_off'' then
        (if GPIO_AVAILABLE e then
           (case gpio_output_fault e of
              Some m \<Rightarrow> (d, bin_processing_error m)
            | None \<Rightarrow> (d\<lparr>led := False\<rparr>, lit ''LED_OFF''))
         else (d, txt_gpio_unavailable))
      else if sub_cmd_name = lit ''single_capture'' then
        (case camera_fault e of
           Some m \<Rightarrow> (d, bin_processing_error m)
         | None \<Rightarrow>
             (d, lit ''CAPTURED:'' @ FILE_SAVE_PATH @ lit ''capture_'' @ timestamp e @ lit ''.jpg''))
      else if sub_cmd_name = lit ''start_continuous'' then
        (case (if payload = [] then Some (Finite 1)
               else case utf8_decode payload of None \<Rightarrow> None | Some s \<Rightarrow> py_float e s) of
           None \<Rightarrow> (d, txt_invalid_interval)
         | Some interval \<Rightarrow>
             if float_gt0 interval then
               (spawn_capture (d\<lparr>capture_interval := interval\<rparr>),
                lit ''CONTINUOUS_CAPTURE_STARTED:'' @ float_format e interval @ lit ''s'')
             else (d, txt_interval_not_positive))
      else if sub_cmd_name = lit ''stop_continuous'' then
        (d\<lparr>continuous_capture := False\<rparr>, lit ''CONTINUOUS_CAPTURE_STOPPED'')
      else if sub_cmd_name = lit ''display_image'' then
        (case utf8_decode payload of
           None \<Rightarrow> (d, bin_processing_error (decode_error_text e payload))
         | Some filepath \<Rightarrow>
             if path_exists e filepath then
               (case popen e of
                  Inl m \<Rightarrow> (d, bin_processing_error m)
                | Inr h \<Rightarrow> (d, lit ''IMAGE_DISPLAY_STARTED''))
             else (d, bin_image_missing))
      else if sub_cmd_name = lit ''send_file'' then
        (case utf8_decode payload of
           None \<Rightarrow> (d, bin_processing_error (decode_error_text e payload))
         | Some filepath \<Rightarrow>
             if path_exists e filepath then (d, lit ''FILE_SEND_STARTED:'' @ filepath)
             else (d, txt_file_missing))
      else if sub_cmd_name = lit ''serial_send'' then
        (case utf8_decode payload of
           None \<Rightarrow> (d, bin_processing_error (decode_error_text e payload))
         | Some s \<Rightarrow>
             if 58 \<in> set s then
               (let port = takeWhile (\<lambda>c. c \<noteq> 58) s;
                    payload_text = tl (dropWhile (\<lambda>c. c \<noteq> 58) s)
                in if serial_available e port then
                     (case serial_write_fault e of
                        Some m \<Rightarrow> (d, txt_serial_failed m)
                      | None \<Rightarrow> (d, lit ''SERIAL_SENT:'' @ port @ lit '':'' @ payload_text))
                   else (d, txt_serial_unavailable port))
             else (d, bin_serial_format))
      else (d, bin_invalid))"

text \<open>
  One round of the loop of \<open>handle_udp_command\<close> in the binary variant. The whole of
  the decoding stands inside the \<open>try\<close>, so every datagram gets a response.
\<close>

definition handle_binary_command :: "'a binary_env_scheme \<Rightarrow> device \<Rightarrow> bytes \<Rightarrow> device \<times> pystr" where
  "handle_binary_command e d data =
     (if 4 \<le> length data then
        (let command = be16 (take 2 data);
             sub_command = be16 (take 2 (drop 2 data));
             payload = drop 4 data
         in case map_of COMMANDS command of
              None \<Rightarrow> (d, bin_unknown command)
            | Some cmd_name \<Rightarrow>
                if cmd_name = lit ''time_sync'' then
                  (case utf8_decode payload of
                     None \<Rightarrow> (d, bin_time_invalid (decode_error_text e payload))
                   | Some s \<Rightarrow>
                       (case strptime_fault e (strip s) of
                          Some m \<Rightarrow> (d, bin_time_invalid m)
                        | None \<Rightarrow>
                            (let return_code =
                                   system_return_code e
                                     (lit ''sudo timedatectl set-time \"'' @ strip s @ lit ''\"'')
                             in if return_code = 0 then (d, lit ''TIME_SET_SUCCESS:'' @ strip s)
                                else (d, lit ''TIME_SET_FAILED:'' @ str_int return_code))))
                else if cmd_name = lit ''storage_clear'' then
                  (case storage_clear_fault e of
                     Some m \<Rightarrow> (d, bin_clear_failed m)
                   | None \<Rightarrow> (d, lit ''STORAGE_CLEARED''))
                else
                  (case map_of SUB_COMMANDS cmd_name of
                     None \<Rightarrow> (d, bin_invalid)
                   | Some sub_cmds \<Rightarrow>
                       (case map_of sub_cmds sub_command of
                          None \<Rightarrow> (d, bin_invalid_sub sub_command cmd_name)
                        | Some sub_cmd_name \<Rightarrow> sub_command_body e d sub_cmd_name payload)))
      else (d, bin_too_short))"

lemma utf8_decode_Nil [simp]: "utf8_decode [] = Some []"
  by (simp add: utf8_decode.simps)

lemma utf8_decode_Cons:
  "utf8_decode (b # bs) =
     (case utf8_next (b # bs) of
        None \<Rightarrow> None
      | Some (c, r) \<Rightarrow> (case utf8_decode r of None \<Rightarrow> None | Some s \<Rightarrow> Some (c # s)))"
  by (subst utf8_decode.simps) (simp del: utf8_next.simps)

lemma utf8_decode_ignore_Nil [simp]: "utf8_decode_ignore [] = []"
  by (simp add: utf8_decode_ignore.simps)

lemma utf8_decode_ignore_Cons:
  "utf8_decode_ignore (b # bs) =
     (case utf8_next (b # bs) of
        None \<Rightarrow> utf8_decode_ignore bs
      | Some (c, r) \<Rightarrow> c # utf8_decode_ignore r)"
  by (subst utf8_decode_ignore.simps) (simp del: utf8_next.simps cong: option.case_cong)

section \<open>Properties of the command table and the dispatcher\<close>

subsection \<open>Literals and the table\<close>

lemma lit_inject [simp]: "lit a = lit b \<longleftrightarrow> a = b"
  unfolding lit_def by (simp add: inj_map_eq_map inj_on_def)

lemma unat_of_char: "unat (of_char c :: byte) = (of_char c :: nat)"
proof -
  have "(of_char c :: byte) = of_nat (of_char c :: nat)" by (simp add: of_nat_of_char)
  then have "unat (of_char c :: byte) = (of_char c :: nat) mod 2 ^ 8"
    by (simp add: unat_of_nat)
  then show ?thesis by simp
qed

lemma utf8_decode_ascii: "list_all is_ascii s \<Longrightarrow> utf8_decode (blit s) = Some (lit s)"
proof (induction s)
  case Nil
  then show ?case by (simp add: blit_def lit_def)
next
  case (Cons c s)
  then have c: "(of_char c :: nat) < 128" and s: "utf8_decode (blit s) = Some (lit s)"
    by (simp_all add: is_ascii_def)
  have lt: "(of_char c :: byte) < 0x80"
    using c by (simp add: word_less_nat_alt unat_of_char)
  have "utf8_next (of_char c # blit s) = Some (of_char c, blit s)"
    using lt by (simp add: unat_of_char)
  then show ?case
    using s by (simp add: blit_def lit_def utf8_decode_Cons del: utf8_next.simps)
qed

lemma mapping_at_keys:
  "mapping_at (lit ''capture'') = Inr (lit ''0x14BD0001'')"
  "mapping_at (lit ''continuous_capture'') = Inr (lit ''0x14BD0002'')"
  "mapping_at (lit ''continuous_capture stop'') = Inr (lit ''0x14BD0003'')"
  "mapping_at (lit ''record'') = Inr (lit ''0x14BD0004'')"
  "mapping_at (lit ''audio_record_start'') = Inr (lit ''0x14BD0005'')"
  "mapping_at (lit ''audio_record_stop'') = Inr (lit ''0x14BD0006'')"
  "mapping_at (lit ''audio_play'') = Inr (lit ''0x14BD0007'')"
  "mapping_at (lit ''set_time'') = Inr (lit ''0x42EB0001'')"
  "mapping_at (lit ''hdmi_play'') = Inr (lit ''0x22A10001'')"
  "mapping_at (lit ''hdmi_stop'') = Inr (lit ''0x22A10002'')"
  "mapping_at (lit ''tcp_send_file'') = Inr (lit ''0x30C10001'')"
  "mapping_at (lit ''run_script oled'') = Inr (lit ''0x30020001'')"
  "mapping_at (lit ''led_on'') = Inr (lit ''0x40010001'')"
  "mapping_at (lit ''led_off'') = Inr (lit ''0x40020001'')"
  "mapping_at (lit ''display'') = Inr (lit ''0x50010001'')"
  "mapping_at (lit ''serial'') = Inr (lit ''0x60010001'')"
  by (simp_all add: mapping_at_def COMMAND_MAPPING_def)

lemma split_keys:
  "split (lit ''capture'') = [lit ''capture'']"
  "split (lit ''continuous_capture'') = [lit ''continuous_capture'']"
  "split (lit ''continuous_capture stop'') = [lit ''continuous_capture'', lit ''stop'']"
  "split (lit ''record'') = [lit ''record'']"
  "split (lit ''audio_record_start'') = [lit ''audio_record_start'']"
  "split (lit ''audio_record_stop'') = [lit ''audio_record_stop'']"
  "split (lit ''audio_play'') = [lit ''audio_play'']"
  "split (lit ''set_time'') = [lit ''set_time'']"
  "split (lit ''file_transfer'') = [lit ''file_transfer'']"
  "split (lit ''download'') = [lit ''download'']"
  "split (lit ''hdmi_play'') = [lit ''hdmi_play'']"
  "split (lit ''hdmi_stop'') = [lit ''hdmi_stop'']"
  "split (lit ''tcp_send_file'') = [lit ''tcp_send_file'']"
  "split (lit ''run_script oled'') = [lit ''run_script'', lit ''oled'']"
  "split (lit ''led_on'') = [lit ''led_on'']"
  "split (lit ''led_off'') = [lit ''led_off'']"
  "split (lit ''display'') = [lit ''display'']"
  "split (lit ''serial'') = [lit ''serial'']"
  by (simp_all add: split_def lit_def is_space_def)

lemma space_in_stop_key: "32 \<in> set (lit ''continuous_capture stop'')"
  by (simp add: lit_def)

lemma key_without_space_is_token:
  assumes "map_of COMMAND_MAPPING k = Some v" and "32 \<notin> set k"
  shows "split k = [k]"
proof -
  from assms(1) have "(k, v) \<in> set COMMAND_MAPPING" by (rule map_of_SomeD)
  then have "k \<in> fst ` set COMMAND_MAPPING" by force
  then consider "split k = [k]" | "32 \<in> set k"
    unfolding COMMAND_MAPPING_def using split_keys space_in_stop_key
    by (auto simp: lit_def)
  then show ?thesis using assms(2) by cases auto
qed

lemma first_token_not_key:
  assumes "split cmd = t # ts" and "map_of COMMAND_MAPPING t = None"
  shows "get_command_code cmd = Inr (lit ''0x00000000'')"
proof (cases "32 \<in> set cmd")
  case True
  have "cmd \<noteq> lit ''continuous_capture stop''"
  proof
    assume "cmd = lit ''continuous_capture stop''"
    with assms(1) have "t = lit ''continuous_capture''" by (simp add: split_keys)
    with assms(2) show False by (simp add: COMMAND_MAPPING_def)
  qed
  with True assms show ?thesis
    by (simp add: get_command_code_def mapping_get_def)
next
  case False
  have ne: "cmd \<noteq> lit ''continuous_capture stop''"
    using False space_in_stop_key by auto
  have "map_of COMMAND_MAPPING cmd = None"
  proof (rule ccontr)
    assume "map_of COMMAND_MAPPING cmd \<noteq> None"
    then obtain v where v: "map_of COMMAND_MAPPING cmd = Some v" by auto
    then have "split cmd = [cmd]" using False by (rule key_without_space_is_token)
    with assms v show False by simp
  qed
  with False ne show ?thesis
    by (simp add: get_command_code_def mapping_get_def)
qed

lemma dispatch_unknown:
  "dispatch e (lit ''0x00000000'') parts d = (d, False, msg_unknown_command)"
  by (simp add: dispatch_def mapping_at_keys)

lemma keys_with_space:
  assumes "(k, v) \<in> set COMMAND_MAPPING" and "32 \<in> set k"
  shows "k = lit ''continuous_capture stop'' \<or> k = lit ''run_script oled''"
proof -
  have "k \<in> fst ` set COMMAND_MAPPING" using assms(1) by force
  then consider "k = lit ''continuous_capture stop''" | "k = lit ''run_script oled''" | "32 \<notin> set k"
    unfolding COMMAND_MAPPING_def by (auto simp: lit_def)
  then show ?thesis using assms(2) by cases auto
qed

lemma run_script_oled_code: "get_command_code (lit ''run_script oled'') = Inr (lit ''0x00000000'')"
  by (rule first_token_not_key [of _ "lit ''run_script''" "[lit ''oled'']"])
     (simp_all add: split_keys COMMAND_MAPPING_def)

lemma unknown_response:
  assumes "utf8_decode data = Some s" and "get_command_code (strip s) = Inr (lit ''0x00000000'')"
  shows "udp_command_server e d data = Inr (d, lit ''0x00000000:ERROR:'' @ msg_unknown_command)"
  using assms by (simp add: udp_command_server_def dispatch_unknown) (simp add: lit_def)

lemma stop_key_code: "get_command_code (lit ''continuous_capture stop'') = Inr (lit ''0x14BD0003'')"
  by (simp add: get_command_code_def space_in_stop_key split_keys mapping_get_def COMMAND_MAPPING_def)

lemma strip_run_script: "strip (lit ''run_script oled'') = lit ''run_script oled''"
  by (simp add: strip_def lit_def is_space_def)

section \<open>Properties of the final variant's tasks\<close>

subsection \<open>Running the dispatcher on a datagram\<close>

lemma strip_id: "s \<noteq> [] \<Longrightarrow> \<not> is_space (hd s) \<Longrightarrow> \<not> is_space (last s) \<Longrightarrow> strip s = s"
proof -
  assume a: "s \<noteq> []" "\<not> is_space (hd s)" "\<not> is_space (last s)"
  then have 1: "dropWhile is_space s = s" by (cases s) auto
  from a have "rev s \<noteq> []" "\<not> is_space (hd (rev s))" by (simp_all add: hd_rev)
  then have 2: "dropWhile is_space (rev s) = rev s" by (cases "rev s") auto
  show ?thesis by (simp add: strip_def 1 2)
qed

lemma get_command_code_token:
  "split cmd = t # ts \<Longrightarrow> 32 \<in> set cmd \<Longrightarrow> cmd \<noteq> lit ''continuous_capture stop'' \<Longrightarrow>
   get_command_code cmd = Inr (mapping_get t (lit ''0x00000000''))"
  by (simp add: get_command_code_def)

lemma get_command_code_nospace:
  "32 \<notin> set cmd \<Longrightarrow> get_command_code cmd = Inr (mapping_get cmd (lit ''0x00000000''))"
  using space_in_stop_key by (auto simp add: get_command_code_def)

lemma dispatch_codes:
  "dispatch e (lit ''0x14BD0002'') parts d =
     (case parts of
        _ # p1 # _ \<Rightarrow>
          (case py_float e p1 of
             Some interval \<Rightarrow> start_continuous_capture e interval d
           | None \<Rightarrow> (d, False, msg_invalid_interval))
      | _ \<Rightarrow> start_continuous_capture e (Finite 1) d)"
  "dispatch e (lit ''0x14BD0003'') parts d = stop_continuous_capture d"
  "dispatch e (lit ''0x40010001'') parts d = control_led e (lit ''on'') d"
  "dispatch e (lit ''0x40020001'') parts d = control_led e (lit ''off'') d"
  "dispatch e (lit ''0x14BD0005'') parts d = start_audio_recording e d"
  "dispatch e (lit ''0x14BD0006'') parts d = stop_audio_recording e d"
  "dispatch e (lit ''0x22A10001'') parts d =
     (case parts of _ # p1 # _ \<Rightarrow> hdmi_play_video e p1 d | _ \<Rightarrow> (d, False, msg_need_video))"
  "dispatch e (lit ''0x22A10002'') parts d = hdmi_stop_video d"
  by (simp_all add: dispatch_def mapping_at_keys)

lemma mapping_get_keys:
  "mapping_get (lit ''continuous_capture'') x = lit ''0x14BD0002''"
  "mapping_get (lit ''continuous_capture stop'') x = lit ''0x14BD0003''"
  "mapping_get (lit ''led_on'') x = lit ''0x40010001''"
  "mapping_get (lit ''led_off'') x = lit ''0x40020001''"
  "mapping_get (lit ''audio_record_start'') x = lit ''0x14BD0005''"
  "mapping_get (lit ''audio_record_stop'') x = lit ''0x14BD0006''"
  "mapping_get (lit ''hdmi_play'') x = lit ''0x22A10001''"
  "mapping_get (lit ''hdmi_stop'') x = lit ''0x22A10002''"
  "mapping_get (lit ''download'') x = lit ''0x20010002''"
  by (simp_all add: mapping_get_def COMMAND_MAPPING_def)



lemma ascii_examples:
  "utf8_decode (blit ''continuous_capture stop'') = Some (lit ''continuous_capture stop'')"
  "utf8_decode (blit ''continuous_capture 0'') = Some (lit ''continuous_capture 0'')"
  "utf8_decode (blit ''continuous_capture 2'') = Some (lit ''continuous_capture 2'')"
  "utf8_decode (blit ''led_on'') = Some (lit ''led_on'')"
  "utf8_decode (blit ''hdmi_play /v.mp4'') = Some (lit ''hdmi_play /v.mp4'')"
  "utf8_decode (blit ''continuous_capture -1'') = Some (lit ''continuous_capture -1'')"
  by (simp_all add: utf8_decode_ascii is_ascii_def)

lemma strip_examples:
  "strip (lit ''continuous_capture stop'') = lit ''continuous_capture stop''"
  "strip (lit ''continuous_capture 0'') = lit ''continuous_capture 0''"
  "strip (lit ''continuous_capture 2'') = lit ''continuous_capture 2''"
  "strip (lit ''led_on'') = lit ''led_on''"
  "strip (lit ''hdmi_play /v.mp4'') = lit ''hdmi_play /v.mp4''"
  "strip (lit ''continuous_capture -1'') = lit ''continuous_capture -1''"
  by (rule strip_id; simp add: lit_def is_space_def)+

lemma split_examples:
  "split (lit ''continuous_capture 0'') = [lit ''continuous_capture'', lit ''0'']"
  "split (lit ''continuous_capture 2'') = [lit ''continuous_capture'', lit ''2'']"
  "split (lit ''hdmi_play /v.mp4'') = [lit ''hdmi_play'', lit ''/v.mp4'']"
  "split (lit ''continuous_capture -1'') = [lit ''continuous_capture'', lit ''-1'']"
  by (simp_all add: split_def lit_def is_space_def)

lemma space_examples:
  "32 \<in> set (lit ''continuous_capture 0'')"
  "32 \<in> set (lit ''continuous_capture 2'')"
  "32 \<in> set (lit ''hdmi_play /v.mp4'')"
  "32 \<in> set (lit ''continuous_capture -1'')"
  "32 \<notin> set (lit ''led_on'')"
  by (simp_all add: lit_def)

lemma code_examples:
  "get_command_code (lit ''continuous_capture 0'') = Inr (lit ''0x14BD0002'')"
  "get_command_code (lit ''continuous_capture 2'') = Inr (lit ''0x14BD0002'')"
  "get_command_code (lit ''hdmi_play /v.mp4'') = Inr (lit ''0x22A10001'')"
  "get_command_code (lit ''led_on'') = Inr (lit ''0x40010001'')"
  "get_command_code (lit ''continuous_capture -1'') = Inr (lit ''0x14BD0002'')"
  by (simp_all add: get_command_code_token [OF split_examples(1)] 
        get_command_code_token [OF split_examples(2)] get_command_code_token [OF split_examples(3)]
        get_command_code_token [OF split_examples(4)]
        get_command_code_nospace space_examples mapping_get_keys)

lemma response_text:
  "lit ''0x14BD0002'' @ lit '':'' @ lit ''SUCCESS'' @ lit '':'' @ m = lit ''0x14BD0002:SUCCESS:'' @ m"
  "lit ''0x14BD0002'' @ lit '':'' @ lit ''ERROR'' @ lit '':'' @ m = lit ''0x14BD0002:ERROR:'' @ m"
  "lit ''0x14BD0003'' @ lit '':'' @ lit ''SUCCESS'' @ lit '':'' @ m = lit ''0x14BD0003:SUCCESS:'' @ m"
  "lit ''0x14BD0005'' @ lit '':'' @ lit ''SUCCESS'' @ lit '':'' @ m = lit ''0x14BD0005:SUCCESS:'' @ m"
  "lit ''0x14BD0005'' @ lit '':'' @ lit ''ERROR'' @ lit '':'' @ m = lit ''0x14BD0005:ERROR:'' @ m"
  "lit ''0x14BD0006'' @ lit '':'' @ lit ''SUCCESS'' @ lit '':'' @ m = lit ''0x14BD0006:SUCCESS:'' @ m"
  "lit ''0x14BD0006'' @ lit '':'' @ lit ''ERROR'' @ lit '':'' @ m = lit ''0x14BD0006:ERROR:'' @ m"
  "lit ''0x40010001'' @ lit '':'' @ lit ''SUCCESS'' @ lit '':'' @ m = lit ''0x40010001:SUCCESS:'' @ m"
  "lit ''0x40020001'' @ lit '':'' @ lit ''SUCCESS'' @ lit '':'' @ m = lit ''0x40020001:SUCCESS:'' @ m"
  "lit ''0x22A10001'' @ lit '':'' @ lit ''SUCCESS'' @ lit '':'' @ m = lit ''0x22A10001:SUCCESS:'' @ m"
  "lit ''0x22A10002'' @ lit '':'' @ lit ''SUCCESS'' @ lit '':'' @ m = lit ''0x22A10002:SUCCESS:'' @ m"
  "lit ''0x22A10002'' @ lit '':'' @ lit ''ERROR'' @ lit '':'' @ m = lit ''0x22A10002:ERROR:'' @ m"
  by (simp_all add: lit_def)

lemma served:
  "utf8_decode data = Some s \<Longrightarrow> get_command_code (strip s) = Inr code \<Longrightarrow>
   dispatch e code (split (strip s)) d = (d', ok, m) \<Longrightarrow>
   udp_command_server e d data =
     Inr (d', code @ lit '':'' @ (if ok then lit ''SUCCESS'' else lit ''ERROR'') @ lit '':'' @ m)"
  by (simp add: udp_command_server_def)




subsection \<open>How a command gets its code\<close>

lemma tab_command:
  "utf8_decode (blit (''led_on'' @ [CHR 0x09] @ ''x'')) = Some (lit (''led_on'' @ [CHR 0x09] @ ''x''))"
  "strip (lit (''led_on'' @ [CHR 0x09] @ ''x'')) = lit (''led_on'' @ [CHR 0x09] @ ''x'')"
  "split (lit (''led_on'' @ [CHR 0x09] @ ''x'')) = [lit ''led_on'', lit ''x'']"
  "32 \<notin> set (lit (''led_on'' @ [CHR 0x09] @ ''x''))"
  "9 \<in> set (lit (''led_on'' @ [CHR 0x09] @ ''x''))"
  "map_of COMMAND_MAPPING (lit (''led_on'' @ [CHR 0x09] @ ''x'')) = None"
proof -
  show "utf8_decode (blit (''led_on'' @ [CHR 0x09] @ ''x'')) = Some (lit (''led_on'' @ [CHR 0x09] @ ''x''))"
    by (rule utf8_decode_ascii) (simp add: is_ascii_def)
  show "strip (lit (''led_on'' @ [CHR 0x09] @ ''x'')) = lit (''led_on'' @ [CHR 0x09] @ ''x'')"
    by (rule strip_id; simp add: lit_def is_space_def)
  show "split (lit (''led_on'' @ [CHR 0x09] @ ''x'')) = [lit ''led_on'', lit ''x'']"
    by (simp add: split_def lit_def is_space_def)
  show "32 \<notin> set (lit (''led_on'' @ [CHR 0x09] @ ''x''))"
    by (simp add: lit_def)
  show "9 \<in> set (lit (''led_on'' @ [CHR 0x09] @ ''x''))"
    by (simp add: lit_def)
  show "map_of COMMAND_MAPPING (lit (''led_on'' @ [CHR 0x09] @ ''x'')) = None"
    by (simp add: COMMAND_MAPPING_def)
qed

text \<open>
  Claim C9, as amended. \<open>get_command_code\<close> looks at the first token of a command only
  when the command holds a space character (code point 32), and leaves
  \<open>'continuous_capture stop'\<close> as it is; a command without a space character is looked
  up whole, whatever other whitespace it holds. The only key of the table with a space
  in it besides \<open>'continuous_capture stop'\<close> is \<open>'run_script oled'\<close>, and its code is
  never found: the command gets \<open>'0x00000000'\<close>. So does every command whose first
  token is not a key. For such a code the dispatcher leaves the state as it is and
  answers with the unknown-command error.
\<close>

theorem get_command_code_first_token:
  "(32 \<in> set command \<and> command \<noteq> lit ''continuous_capture stop'' \<and> split command = t # ts \<longrightarrow>
      get_command_code command = Inr (mapping_get t (lit ''0x00000000''))) \<and>
   (32 \<notin> set command \<longrightarrow>
      get_command_code command = Inr (mapping_get command (lit ''0x00000000''))) \<and>
   (map_of COMMAND_MAPPING k = Some v \<and> 32 \<in> set k \<and> k \<noteq> lit ''continuous_capture stop'' \<longrightarrow>
      k = lit ''run_script oled'' \<and> get_command_code k = Inr (lit ''0x00000000'')) \<and>
   (split command = t # ts \<and> map_of COMMAND_MAPPING t = None \<longrightarrow>
      get_command_code command = Inr (lit ''0x00000000'')) \<and>
   (utf8_decode data = Some s \<and> get_command_code (strip s) = Inr (lit ''0x00000000'') \<longrightarrow>
      udp_command_server e d data =
        Inr (d, lit ''0x00000000:ERROR:'' @ msg_unknown_command)) \<and>
   get_command_code (lit ''continuous_capture stop'') = Inr (lit ''0x14BD0003'')"
proof (intro conjI impI)
  assume "32 \<in> set command \<and> command \<noteq> lit ''continuous_capture stop'' \<and> split command = t # ts"
  then show "get_command_code command = Inr (mapping_get t (lit ''0x00000000''))"
    by (simp add: get_command_code_token)
next
  assume "32 \<notin> set command"
  then show "get_command_code command = Inr (mapping_get command (lit ''0x00000000''))"
    by (rule get_command_code_nospace)
next
  assume a: "map_of COMMAND_MAPPING k = Some v \<and> 32 \<in> set k \<and> k \<noteq> lit ''continuous_capture stop''"
  then have "(k, v) \<in> set COMMAND_MAPPING" by (auto dest: map_of_SomeD)
  with a show k: "k = lit ''run_script oled''"
    using keys_with_space by blast
  show "get_command_code k = Inr (lit ''0x00000000'')"
    unfolding k by (rule run_script_oled_code)
next
  assume "split command = t # ts \<and> map_of COMMAND_MAPPING t = None"
  then show "get_command_code command = Inr (lit ''0x00000000'')"
    using first_token_not_key by blast
next
  assume "utf8_decode data = Some s \<and> get_command_code (strip s) = Inr (lit ''0x00000000'')"
  then show "udp_command_server e d data =
        Inr (d, lit ''0x00000000:ERROR:'' @ msg_unknown_command)"
    using unknown_response by blast
next
  show "get_command_code (lit ''continuous_capture stop'') = Inr (lit ''0x14BD0003'')"
    by (rule stop_key_code)
qed

theorem get_command_code_first_token_witness:
  "32 \<in> set (lit ''hdmi_play /v.mp4'') \<and>
   lit ''hdmi_play /v.mp4'' \<noteq> lit ''continuous_capture stop'' \<and>
   split (lit ''hdmi_play /v.mp4'') = lit ''hdmi_play'' # [lit ''/v.mp4''] \<and>
   mapping_get (lit ''hdmi_play'') (lit ''0x00000000'') = lit ''0x22A10001'' \<and>
   get_command_code (lit ''hdmi_play /v.mp4'') = Inr (lit ''0x22A10001'') \<and>
   32 \<notin> set (lit ''led_on'') \<and>
   mapping_get (lit ''led_on'') (lit ''0x00000000'') = lit ''0x40010001'' \<and>
   get_command_code (lit ''led_on'') = Inr (lit ''0x40010001'') \<and>
   map_of COMMAND_MAPPING (lit ''run_script oled'') = Some (lit ''0x30020001'') \<and>
   32 \<in> set (lit ''run_script oled'') \<and>
   lit ''run_script oled'' \<noteq> lit ''continuous_capture stop'' \<and>
   split (lit ''run_script oled'') = lit ''run_script'' # [lit ''oled''] \<and>
   map_of COMMAND_MAPPING (lit ''run_script'') = None \<and>
   utf8_decode (blit ''run_script oled'') = Some (lit ''run_script oled'') \<and>
   get_command_code (strip (lit ''run_script oled'')) = Inr (lit ''0x00000000'') \<and>
   udp_command_server bench_env initial_device (blit ''run_script oled'') =
     Inr (initial_device, lit ''0x00000000:ERROR:'' @ msg_unknown_command)"
proof -
  have hs: "32 \<in> set (lit ''hdmi_play /v.mp4'')" by (rule space_examples)
  have hn: "lit ''hdmi_play /v.mp4'' \<noteq> lit ''continuous_capture stop''" by simp
  have ht: "split (lit ''hdmi_play /v.mp4'') = lit ''hdmi_play'' # [lit ''/v.mp4'']"
    by (simp add: split_examples)
  have hm: "mapping_get (lit ''hdmi_play'') (lit ''0x00000000'') = lit ''0x22A10001''"
    by (rule mapping_get_keys)
  note h = get_command_code_first_token
      [of "lit ''hdmi_play /v.mp4''" "lit ''hdmi_play''" "[lit ''/v.mp4'']"
          "lit ''run_script oled''" "lit ''0x30020001''" "blit ''run_script oled''"
          "lit ''run_script oled''" bench_env initial_device]
  have hc: "get_command_code (lit ''hdmi_play /v.mp4'') = Inr (lit ''0x22A10001'')"
    using h [THEN conjunct1, THEN mp, OF conjI [OF hs conjI [OF hn ht]]] unfolding hm .
  have ls: "32 \<notin> set (lit ''led_on'')" by (rule space_examples)
  have lm: "mapping_get (lit ''led_on'') (lit ''0x00000000'') = lit ''0x40010001''"
    by (rule mapping_get_keys)
  note l = get_command_code_first_token
      [of "lit ''led_on''" "lit ''led_on''" "[]"
          "lit ''run_script oled''" "lit ''0x30020001''" "blit ''run_script oled''"
          "lit ''run_script oled''" bench_env initial_device]
  have lc: "get_command_code (lit ''led_on'') = Inr (lit ''0x40010001'')"
    using l [THEN conjunct2, THEN conjunct1, THEN mp, OF ls] unfolding lm .
  have m: "map_of COMMAND_MAPPING (lit ''run_script oled'') = Some (lit ''0x30020001'')"
    by (simp add: COMMAND_MAPPING_def)
  have sp: "32 \<in> set (lit ''run_script oled'')" by (simp add: lit_def)
  have ne: "lit ''run_script oled'' \<noteq> lit ''continuous_capture stop''" by simp
  have t: "split (lit ''run_script oled'') = lit ''run_script'' # [lit ''oled'']"
    by (simp add: split_keys)
  have n: "map_of COMMAND_MAPPING (lit ''run_script'') = None"
    by (simp add: COMMAND_MAPPING_def)
  have u: "utf8_decode (blit ''run_script oled'') = Some (lit ''run_script oled'')"
    by (simp add: utf8_decode_ascii is_ascii_def)
  note r = get_command_code_first_token
      [of "lit ''run_script oled''" "lit ''run_script''" "[lit ''oled'']"
          "lit ''run_script oled''" "lit ''0x30020001''" "blit ''run_script oled''"
          "lit ''run_script oled''" bench_env initial_device]
  have c1: "get_command_code (lit ''run_script oled'') = Inr (lit ''0x00000000'')"
    using r [THEN conjunct2, THEN conjunct2, THEN conjunct1, THEN mp,
        OF conjI [OF m conjI [OF sp ne]]] by (rule conjunct2)
  have c2: "get_command_code (lit ''run_script oled'') = Inr (lit ''0x00000000'')"
    by (rule r [THEN conjunct2, THEN conjunct2, THEN conjunct2, THEN conjunct1, THEN mp,
        OF conjI [OF t n]])
  have c: "get_command_code (strip (lit ''run_script oled'')) = Inr (lit ''0x00000000'')"
    unfolding strip_run_script by (rule c1)
  have a: "udp_command_server bench_env initial_device (blit ''run_script oled'') =
     Inr (initial_device, lit ''0x00000000:ERROR:'' @ msg_unknown_command)"
    by (rule r [THEN conjunct2, THEN conjunct2, THEN conjunct2, THEN conjunct2, THEN conjunct1,
        THEN mp, OF conjI [OF u c]])
  show ?thesis
    by (intro conjI hs hn ht hm hc ls lm lc m sp ne t n u c a)
qed

text \<open>
  Claim C9 as stated fails for whitespace other than the space character: in the
  command \<open>led_on\<close>, tab, \<open>x\<close> the first token is the key \<open>led_on\<close> with code
  \<open>'0x40010001'\<close>, and the command gets \<open>'0x00000000'\<close> and the unknown-command error.
\<close>

theorem tab_separated_command_unknown:
  "is_space 9 \<and> 9 \<in> set (lit (''led_on'' @ [CHR 0x09] @ ''x'')) \<and>
   split (lit (''led_on'' @ [CHR 0x09] @ ''x'')) = [lit ''led_on'', lit ''x''] \<and>
   mapping_get (lit ''led_on'') (lit ''0x00000000'') = lit ''0x40010001'' \<and>
   get_command_code (lit (''led_on'' @ [CHR 0x09] @ ''x'')) = Inr (lit ''0x00000000'') \<and>
   udp_command_server bench_env initial_device (blit (''led_on'' @ [CHR 0x09] @ ''x'')) =
     Inr (initial_device, lit ''0x00000000:ERROR:'' @ msg_unknown_command)"
proof -
  have w: "is_space 9" by (simp add: is_space_def)
  have m: "mapping_get (lit ''led_on'') (lit ''0x00000000'') = lit ''0x40010001''"
    by (rule mapping_get_keys)
  have c: "get_command_code (lit (''led_on'' @ [CHR 0x09] @ ''x'')) = Inr (lit ''0x00000000'')"
    unfolding get_command_code_nospace [OF tab_command(4)] mapping_get_def tab_command(6) by simp
  have "get_command_code (strip (lit (''led_on'' @ [CHR 0x09] @ ''x''))) = Inr (lit ''0x00000000'')"
    unfolding tab_command(2) by (rule c)
  then have r: "udp_command_server bench_env initial_device (blit (''led_on'' @ [CHR 0x09] @ ''x'')) =
     Inr (initial_device, lit ''0x00000000:ERROR:'' @ msg_unknown_command)"
    by (rule unknown_response [OF tab_command(1)])
  show ?thesis
    by (intro conjI w tab_command(5) tab_command(3) m c r)
qed

subsection \<open>Intervals that are not positive, in the final variant\<close>

text \<open>
  Claim C5 says that an interval that parses but is zero or negative is rejected and
  starts no capture. The final variant passes whatever \<open>float()\<close> returns to
  \<open>start_continuous_capture\<close>, which compares it with nothing: the commands
  \<open>continuous_capture 0\<close> and \<open>continuous_capture -1\<close> are answered with success, the
  flag is set and a capture thread is started.
\<close>

theorem start_continuous_capture_nonpositive:
  "bench_float (lit ''0'') = Some (Finite 0) \<and> \<not> float_gt0 (Finite 0) \<and>
   udp_command_server bench_env initial_device (blit ''continuous_capture 0'') =
     Inr (initial_device\<lparr>capture_interval := Finite 0, continuous_capture := True,
                         capture_threads := 1\<rparr>,
          lit ''0x14BD0002:SUCCESS:'' @ msg_capture_started (lit ''0.0'')) \<and>
   bench_float (lit ''-1'') = Some (Finite (- 1)) \<and> \<not> float_gt0 (Finite (- 1)) \<and>
   udp_command_server bench_env initial_device (blit ''continuous_capture -1'') =
     Inr (initial_device\<lparr>capture_interval := Finite (- 1), continuous_capture := True,
                         capture_threads := 1\<rparr>,
          lit ''0x14BD0002:SUCCESS:'' @ msg_capture_started (lit ''-1.0''))"
proof -
  have f: "bench_float (lit ''0'') = Some (Finite 0)" "bench_float (lit ''-1'') = Some (Finite (- 1))"
    by (simp_all add: bench_float_def)
  have a: "udp_command_server bench_env initial_device (blit ''continuous_capture 0'') =
     Inr (initial_device\<lparr>capture_interval := Finite 0, continuous_capture := True,
                         capture_threads := 1\<rparr>,
          lit ''0x14BD0002'' @ lit '':'' @ (if True then lit ''SUCCESS'' else lit ''ERROR'') @ lit '':'' @ msg_capture_started (lit ''0.0''))"
    by (rule served [OF ascii_examples(2)])
       (simp_all add: strip_examples code_examples split_examples dispatch_codes f
          start_continuous_capture_def initial_device_def bench_env_def bench_format_def)
  have b: "udp_command_server bench_env initial_device (blit ''continuous_capture -1'') =
     Inr (initial_device\<lparr>capture_interval := Finite (- 1), continuous_capture := True,
                         capture_threads := 1\<rparr>,
          lit ''0x14BD0002'' @ lit '':'' @ (if True then lit ''SUCCESS'' else lit ''ERROR'') @ lit '':'' @ msg_capture_started (lit ''-1.0''))"
    by (rule served [OF ascii_examples(6)])
       (simp_all add: strip_examples code_examples split_examples dispatch_codes f
          start_continuous_capture_def initial_device_def bench_env_def bench_format_def)
  show ?thesis using a b f by (simp add: response_text)
qed

subsection \<open>The interval check of the plain-text variant\<close>

lemma startswith_cc_not_capture:
  "startswith command (lit ''continuous_capture'') \<Longrightarrow> command \<noteq> lit ''capture''"
  by (auto simp: startswith_def lit_def)

lemma command_body_interval:
  assumes "startswith command (lit ''continuous_capture'')" and "split command = [p0, p1]"
    and "p1 \<noteq> lit ''stop''"
  shows "command_body e d command =
     (case py_float e p1 of
        Some interval \<Rightarrow>
          if float_gt0 interval
          then (spawn_capture (d\<lparr>capture_interval := interval\<rparr>), lit ''OK'')
          else (d, txt_interval_not_positive)
      | None \<Rightarrow> (d, txt_invalid_interval))"
  using assms startswith_cc_not_capture [OF assms(1)]
  by (simp add: command_body_def)

lemma interval_messages_differ: "txt_interval_not_positive \<noteq> txt_invalid_interval"
  by (simp add: txt_interval_not_positive_def txt_invalid_interval_def)

lemma plain_text_interval:
  assumes "startswith command (lit ''continuous_capture'')" and "split command = [p0, p1]"
    and "p1 \<noteq> lit ''stop''"
  shows "py_float e p1 = None \<Longrightarrow> command_body e d command = (d, txt_invalid_interval)"
    and "py_float e p1 = Some x \<Longrightarrow> \<not> float_gt0 x \<Longrightarrow>
         command_body e d command = (d, txt_interval_not_positive)"
  by (simp_all add: command_body_interval [OF assms])


lemma nospace_keys:
  "32 \<notin> set (lit ''led_on'')" "32 \<notin> set (lit ''led_off'')"
  "32 \<notin> set (lit ''continuous_capture'')" "32 \<notin> set (lit ''audio_record_start'')"
  "32 \<notin> set (lit ''hdmi_stop'')"
  by (simp_all add: lit_def)

lemma key_codes:
  "get_command_code (lit ''led_on'') = Inr (lit ''0x40010001'')"
  "get_command_code (lit ''led_off'') = Inr (lit ''0x40020001'')"
  "get_command_code (lit ''continuous_capture'') = Inr (lit ''0x14BD0002'')"
  "get_command_code (lit ''audio_record_start'') = Inr (lit ''0x14BD0005'')"
  "get_command_code (lit ''hdmi_stop'') = Inr (lit ''0x22A10002'')"
  by (simp_all add: get_command_code_nospace nospace_keys mapping_get_keys)





subsection \<open>Starting a task that is running\<close>

text \<open>
  Claim C2, as amended. In the final variant a start command for continuous capture or
  for audio recording that arrives while that task's flag is set gets an \<open>ERROR\<close>
  response and changes nothing: no thread is started. A play command for HDMI that
  arrives while a player is held is not refused: the held player is terminated, a new
  one is started and becomes the one held, and the result is a success.
\<close>

theorem start_while_running:
  "(continuous_capture d \<longrightarrow>
      start_continuous_capture e x d = (d, False, msg_already_capturing) \<and>
      (\<exists>m. dispatch e (lit ''0x14BD0002'') parts d = (d, False, m))) \<and>
   (is_audio_recording d \<longrightarrow>
      start_audio_recording e d = (d, False, msg_already_recording) \<and>
      dispatch e (lit ''0x14BD0005'') parts d = (d, False, msg_already_recording)) \<and>
   (utf8_decode data = Some s \<and> get_command_code (strip s) = Inr (lit ''0x14BD0002'') \<and>
    continuous_capture d \<longrightarrow>
      (\<exists>m. udp_command_server e d data = Inr (d, lit ''0x14BD0002:ERROR:'' @ m))) \<and>
   (utf8_decode data = Some s \<and> get_command_code (strip s) = Inr (lit ''0x14BD0005'') \<and>
    is_audio_recording d \<longrightarrow>
      udp_command_server e d data = Inr (d, lit ''0x14BD0005:ERROR:'' @ msg_already_recording)) \<and>
   (hdmi_player_process d = Some h \<and> path_exists e p \<and> popen e = Inr h' \<longrightarrow>
      hdmi_play_video e p d =
        (d\<lparr>terminated := terminated d @ [h], hdmi_player_process := Some h'\<rparr>, True,
         msg_hdmi_playing p))"
proof -
  have cap: "\<exists>m. dispatch e (lit ''0x14BD0002'') ps d = (d, False, m)" if "continuous_capture d" for ps
    using that
    by (auto simp: dispatch_codes start_continuous_capture_def split: list.splits option.splits)
  have aud: "dispatch e (lit ''0x14BD0005'') ps d = (d, False, msg_already_recording)"
    if "is_audio_recording d" for ps
    using that by (simp add: dispatch_codes start_audio_recording_def)
  have 1: "continuous_capture d \<longrightarrow>
      start_continuous_capture e x d = (d, False, msg_already_capturing) \<and>
      (\<exists>m. dispatch e (lit ''0x14BD0002'') parts d = (d, False, m))"
    using cap by (simp add: start_continuous_capture_def)
  have 2: "is_audio_recording d \<longrightarrow>
      start_audio_recording e d = (d, False, msg_already_recording) \<and>
      dispatch e (lit ''0x14BD0005'') parts d = (d, False, msg_already_recording)"
    using aud by (simp add: start_audio_recording_def)
  have 3: "utf8_decode data = Some s \<and> get_command_code (strip s) = Inr (lit ''0x14BD0002'') \<and>
    continuous_capture d \<longrightarrow>
      (\<exists>m. udp_command_server e d data = Inr (d, lit ''0x14BD0002:ERROR:'' @ m))"
  proof (intro impI, elim conjE)
    assume a: "utf8_decode data = Some s" "get_command_code (strip s) = Inr (lit ''0x14BD0002'')"
      "continuous_capture d"
    from cap [OF a(3)] obtain m where m: "dispatch e (lit ''0x14BD0002'') (split (strip s)) d = (d, False, m)"
      by blast
    from served [OF a(1) a(2) m] show "\<exists>m. udp_command_server e d data = Inr (d, lit ''0x14BD0002:ERROR:'' @ m)"
      by (simp add: response_text)
  qed
  have 4: "utf8_decode data = Some s \<and> get_command_code (strip s) = Inr (lit ''0x14BD0005'') \<and>
    is_audio_recording d \<longrightarrow>
      udp_command_server e d data = Inr (d, lit ''0x14BD0005:ERROR:'' @ msg_already_recording)"
  proof (intro impI, elim conjE)
    assume a: "utf8_decode data = Some s" "get_command_code (strip s) = Inr (lit ''0x14BD0005'')"
      "is_audio_recording d"
    from served [OF a(1) a(2) aud [OF a(3)]]
    show "udp_command_server e d data = Inr (d, lit ''0x14BD0005:ERROR:'' @ msg_already_recording)"
      by (simp add: response_text)
  qed
  have 5: "hdmi_player_process d = Some h \<and> path_exists e p \<and> popen e = Inr h' \<longrightarrow>
      hdmi_play_video e p d =
        (d\<lparr>terminated := terminated d @ [h], hdmi_player_process := Some h'\<rparr>, True,
         msg_hdmi_playing p)"
    by (simp add: hdmi_play_video_def)
  from 1 2 3 4 5 show ?thesis by blast
qed

theorem start_while_running_witness:
  "continuous_capture capturing_device \<and>
   start_continuous_capture bench_env (Finite 2) capturing_device =
     (capturing_device, False, msg_already_capturing) \<and>
   utf8_decode (blit ''continuous_capture 2'') = Some (lit ''continuous_capture 2'') \<and>
   get_command_code (strip (lit ''continuous_capture 2'')) = Inr (lit ''0x14BD0002'') \<and>
   (\<exists>m. udp_command_server bench_env capturing_device (blit ''continuous_capture 2'') =
          Inr (capturing_device, lit ''0x14BD0002:ERROR:'' @ m)) \<and>
   is_audio_recording recording_device \<and>
   start_audio_recording bench_env recording_device =
     (recording_device, False, msg_already_recording) \<and>
   hdmi_player_process playing_device = Some 7 \<and> path_exists media_env (lit ''/v.mp4'') \<and>
   popen media_env = Inr 1 \<and>
   hdmi_play_video media_env (lit ''/v.mp4'') playing_device =
     (playing_device\<lparr>terminated := terminated playing_device @ [7],
                      hdmi_player_process := Some 1\<rparr>, True, msg_hdmi_playing (lit ''/v.mp4''))"
proof -
  have c: "continuous_capture capturing_device"
    by (simp add: capturing_device_def)
  have u: "utf8_decode (blit ''continuous_capture 2'') = Some (lit ''continuous_capture 2'')"
    by (rule ascii_examples)
  have g: "get_command_code (strip (lit ''continuous_capture 2'')) = Inr (lit ''0x14BD0002'')"
    by (simp add: strip_examples code_examples)
  have r: "is_audio_recording recording_device"
    by (simp add: recording_device_def)
  have h: "hdmi_player_process playing_device = Some 7" "path_exists media_env (lit ''/v.mp4'')"
    "popen media_env = Inr 1"
    by (simp_all add: playing_device_def media_env_def bench_env_def initial_device_def)
  note a = start_while_running [of capturing_device bench_env "Finite 2" "[]"
      "blit ''continuous_capture 2''" "lit ''continuous_capture 2''" 7 "lit ''/v.mp4''" 1]
  note b = start_while_running [of recording_device bench_env "Finite 2" "[]"
      "blit ''continuous_capture 2''" "lit ''continuous_capture 2''" 7 "lit ''/v.mp4''" 1]
  note p = start_while_running [of playing_device media_env "Finite 2" "[]"
      "blit ''continuous_capture 2''" "lit ''continuous_capture 2''" 7 "lit ''/v.mp4''" 1]
  have 1: "start_continuous_capture bench_env (Finite 2) capturing_device =
     (capturing_device, False, msg_already_capturing)"
    using a [THEN conjunct1, THEN mp, OF c] by (rule conjunct1)
  have 3: "\<exists>m. udp_command_server bench_env capturing_device (blit ''continuous_capture 2'') =
          Inr (capturing_device, lit ''0x14BD0002:ERROR:'' @ m)"
    by (rule a [THEN conjunct2, THEN conjunct2, THEN conjunct1, THEN mp,
          OF conjI [OF u conjI [OF g c]]])
  have 2: "start_audio_recording bench_env recording_device =
     (recording_device, False, msg_already_recording)"
    using b [THEN conjunct2, THEN conjunct1, THEN mp, OF r] by (rule conjunct1)
  have 5: "hdmi_play_video media_env (lit ''/v.mp4'') playing_device =
     (playing_device\<lparr>terminated := terminated playing_device @ [7],
                      hdmi_player_process := Some 1\<rparr>, True, msg_hdmi_playing (lit ''/v.mp4''))"
    by (rule p [THEN conjunct2, THEN conjunct2, THEN conjunct2, THEN conjunct2, THEN mp,
          OF conjI [OF h(1) conjI [OF h(2) h(3)]]])
  show ?thesis
    by (intro conjI c 1 u g 3 r 2 h 5)
qed

text \<open>
  Claim C2 as stated fails for HDMI playback: with player 7 held, \<open>hdmi_play\<close> of an
  existing file is answered with \<open>SUCCESS\<close> and a second player is started.
\<close>

theorem hdmi_play_while_playing:
  "hdmi_player_process playing_device = Some 7 \<and>
   udp_command_server media_env playing_device (blit ''hdmi_play /v.mp4'') =
     Inr (playing_device\<lparr>terminated := [7], hdmi_player_process := Some 1\<rparr>,
          lit ''0x22A10001:SUCCESS:'' @ msg_hdmi_playing (lit ''/v.mp4''))"
proof -
  have h: "hdmi_player_process playing_device = Some 7"
    by (simp add: playing_device_def)
  have "udp_command_server media_env playing_device (blit ''hdmi_play /v.mp4'') =
     Inr (playing_device\<lparr>terminated := [7], hdmi_player_process := Some 1\<rparr>,
          lit ''0x22A10001'' @ lit '':'' @ (if True then lit ''SUCCESS'' else lit ''ERROR'') @
          lit '':'' @ msg_hdmi_playing (lit ''/v.mp4''))"
    by (rule served [OF ascii_examples(5)])
       (simp_all add: strip_examples code_examples split_examples dispatch_codes
          hdmi_play_video_def playing_device_def media_env_def bench_env_def initial_device_def)
  with h show ?thesis by (simp add: response_text)
qed

subsection \<open>Commands that succeed\<close>

lemma split_from_cur: "cur \<noteq> [] \<Longrightarrow> split_from cur xs \<noteq> []"
  by (induction xs arbitrary: cur) auto

lemma split_from_nonempty: "\<exists>c\<in>set xs. \<not> is_space c \<Longrightarrow> split_from cur xs \<noteq> []"
  by (induction xs arbitrary: cur) (auto simp: split_from_cur)




















subsection \<open>Stopping a task\<close>

lemma stop_when_running:
  "continuous_capture d \<Longrightarrow> stop_continuous_capture d = (d', ok, m) \<Longrightarrow> ok \<and> \<not> continuous_capture d'"
  "is_audio_recording d \<Longrightarrow> stop_audio_recording e d = (d', ok, m) \<Longrightarrow> \<not> is_audio_recording d'"
  "hdmi_player_process d = Some h \<Longrightarrow> hdmi_stop_video d = (d', ok, m) \<Longrightarrow>
     ok \<and> hdmi_player_process d' = None \<and> terminated d' = terminated d @ [h]"
  by (auto simp: stop_continuous_capture_def stop_audio_recording_def hdmi_stop_video_def split: option.splits)

lemma stop_when_idle:
  "\<not> is_audio_recording d \<Longrightarrow> stop_audio_recording e d = (d, False, msg_no_recording)"
  "hdmi_player_process d = None \<Longrightarrow> hdmi_stop_video d = (d, False, msg_no_video)"
  by (simp_all add: stop_audio_recording_def hdmi_stop_video_def)

lemma nospace_stop_keys:
  "32 \<notin> set (lit ''audio_record_stop'')" "32 \<notin> set (lit ''hdmi_stop'')"
  by (simp_all add: lit_def)

lemma stop_key_codes:
  "get_command_code (lit ''audio_record_stop'') = Inr (lit ''0x14BD0006'')"
  by (simp add: get_command_code_nospace nospace_stop_keys mapping_get_keys)

text \<open>
  Claim C7, as amended. In the final variant, stopping audio recording or HDMI
  playback while it does not run gives a failure result and changes nothing, in the
  handler and in the response to the command. Stopping continuous capture clears the
  flag and gives the success result whatever the flag was. Stopping a task that runs
  clears the flag of audio recording and terminates and lets go of the HDMI player.
\<close>

theorem stop_results:
  "stop_continuous_capture d = (d\<lparr>continuous_capture := False\<rparr>, True, msg_capture_stopped) \<and>
   (\<not> is_audio_recording d \<longrightarrow> stop_audio_recording e d = (d, False, msg_no_recording)) \<and>
   (hdmi_player_process d = None \<longrightarrow> hdmi_stop_video d = (d, False, msg_no_video)) \<and>
   (utf8_decode data = Some s \<and> strip s = lit ''audio_record_stop'' \<and> \<not> is_audio_recording d \<longrightarrow>
      udp_command_server e d data = Inr (d, lit ''0x14BD0006:ERROR:'' @ msg_no_recording)) \<and>
   (utf8_decode data = Some s \<and> strip s = lit ''hdmi_stop'' \<and> hdmi_player_process d = None \<longrightarrow>
      udp_command_server e d data = Inr (d, lit ''0x22A10002:ERROR:'' @ msg_no_video)) \<and>
   (utf8_decode data = Some s \<and> strip s = lit ''continuous_capture stop'' \<longrightarrow>
      udp_command_server e d data =
        Inr (d\<lparr>continuous_capture := False\<rparr>, lit ''0x14BD0003:SUCCESS:'' @ msg_capture_stopped)) \<and>
   (is_audio_recording d \<longrightarrow> \<not> is_audio_recording (fst (stop_audio_recording e d))) \<and>
   (hdmi_player_process d = Some h \<longrightarrow>
      hdmi_stop_video d =
        (d\<lparr>terminated := terminated d @ [h], hdmi_player_process := None\<rparr>, True,
         msg_hdmi_stopped))"
proof (intro conjI impI; (elim conjE)?)
  show "stop_continuous_capture d = (d\<lparr>continuous_capture := False\<rparr>, True, msg_capture_stopped)"
    by (simp add: stop_continuous_capture_def)
next
  assume "\<not> is_audio_recording d"
  then show "stop_audio_recording e d = (d, False, msg_no_recording)"
    by (rule stop_when_idle)
next
  assume "hdmi_player_process d = None"
  then show "hdmi_stop_video d = (d, False, msg_no_video)"
    by (rule stop_when_idle)
next
  assume a: "utf8_decode data = Some s" "strip s = lit ''audio_record_stop''" "\<not> is_audio_recording d"
  have "dispatch e (lit ''0x14BD0006'') (split (strip s)) d = (d, False, msg_no_recording)"
    using a by (simp add: dispatch_codes stop_when_idle)
  from served [OF a(1) _ this] a(2)
  show "udp_command_server e d data = Inr (d, lit ''0x14BD0006:ERROR:'' @ msg_no_recording)"
    by (simp add: stop_key_codes response_text)
next
  assume a: "utf8_decode data = Some s" "strip s = lit ''hdmi_stop''" "hdmi_player_process d = None"
  have "dispatch e (lit ''0x22A10002'') (split (strip s)) d = (d, False, msg_no_video)"
    using a by (simp add: dispatch_codes stop_when_idle)
  from served [OF a(1) _ this] a(2)
  show "udp_command_server e d data = Inr (d, lit ''0x22A10002:ERROR:'' @ msg_no_video)"
    by (simp add: key_codes response_text)
next
  assume a: "utf8_decode data = Some s" "strip s = lit ''continuous_capture stop''"
  have "dispatch e (lit ''0x14BD0003'') (split (strip s)) d =
      (d\<lparr>continuous_capture := False\<rparr>, True, msg_capture_stopped)"
    by (simp add: dispatch_codes stop_continuous_capture_def)
  from served [OF a(1) _ this] a(2)
  show "udp_command_server e d data =
        Inr (d\<lparr>continuous_capture := False\<rparr>, lit ''0x14BD0003:SUCCESS:'' @ msg_capture_stopped)"
    by (simp add: stop_key_code response_text)
next
  assume "is_audio_recording d"
  then show "\<not> is_audio_recording (fst (stop_audio_recording e d))"
    by (simp add: stop_audio_recording_def split: option.splits)
next
  assume "hdmi_player_process d = Some h"
  then show "hdmi_stop_video d =
        (d\<lparr>terminated := terminated d @ [h], hdmi_player_process := None\<rparr>, True,
         msg_hdmi_stopped)"
    by (simp add: hdmi_stop_video_def)
qed

theorem stop_results_witness:
  "\<not> is_audio_recording initial_device \<and>
   stop_audio_recording bench_env initial_device = (initial_device, False, msg_no_recording) \<and>
   hdmi_player_process initial_device = None \<and>
   hdmi_stop_video initial_device = (initial_device, False, msg_no_video) \<and>
   is_audio_recording recording_device \<and>
   \<not> is_audio_recording (fst (stop_audio_recording bench_env recording_device)) \<and>
   hdmi_player_process playing_device = Some 7 \<and>
   hdmi_stop_video playing_device =
     (playing_device\<lparr>terminated := terminated playing_device @ [7], hdmi_player_process := None\<rparr>,
      True, msg_hdmi_stopped) \<and>
   stop_continuous_capture capturing_device =
     (capturing_device\<lparr>continuous_capture := False\<rparr>, True, msg_capture_stopped)"
proof -
  have i: "\<not> is_audio_recording initial_device" "hdmi_player_process initial_device = None"
    by (simp_all add: initial_device_def)
  have r: "is_audio_recording recording_device" by (simp add: recording_device_def)
  have p: "hdmi_player_process playing_device = Some 7" by (simp add: playing_device_def)
  note a = stop_results [of initial_device bench_env "[]" "[]" 7]
  note b = stop_results [of recording_device bench_env "[]" "[]" 7]
  note c = stop_results [of playing_device bench_env "[]" "[]" 7]
  note k = stop_results [of capturing_device bench_env "[]" "[]" 7]
  show ?thesis
    by (intro conjI i r p
          a [THEN conjunct2, THEN conjunct1, THEN mp, OF i(1)]
          a [THEN conjunct2, THEN conjunct2, THEN conjunct1, THEN mp, OF i(2)]
          b [THEN conjunct2, THEN conjunct2, THEN conjunct2, THEN conjunct2, THEN conjunct2,
             THEN conjunct2, THEN conjunct1, THEN mp, OF r]
          c [THEN conjunct2, THEN conjunct2, THEN conjunct2, THEN conjunct2, THEN conjunct2,
             THEN conjunct2, THEN conjunct2, THEN mp, OF p]
          k [THEN conjunct1])
qed

text \<open>
  Claim C7 as stated fails for continuous capture: at start-up, when no capture runs,
  the command \<open>continuous_capture stop\<close> is answered with the success message.
\<close>

theorem stop_continuous_capture_when_idle:
  "\<not> continuous_capture initial_device \<and>
   stop_continuous_capture initial_device = (initial_device, True, msg_capture_stopped) \<and>
   udp_command_server bench_env initial_device (blit ''continuous_capture stop'') =
     Inr (initial_device, lit ''0x14BD0003:SUCCESS:'' @ msg_capture_stopped)"
proof -
  have 1: "\<not> continuous_capture initial_device" by (simp add: initial_device_def)
  have 2: "stop_continuous_capture initial_device = (initial_device, True, msg_capture_stopped)"
    by (simp add: stop_continuous_capture_def initial_device_def)
  have "udp_command_server bench_env initial_device (blit ''continuous_capture stop'') =
     Inr (initial_device, lit ''0x14BD0003'' @ lit '':'' @ (if True then lit ''SUCCESS'' else lit ''ERROR'') @ lit '':'' @ msg_capture_stopped)"
    by (rule served [OF ascii_examples(1)]) (simp_all add: strip_examples stop_key_code dispatch_codes 2)
  then show ?thesis using 1 2 by (simp add: response_text)
qed

section \<open>Properties of the datagram file receiver\<close>

subsection \<open>What the receiver stores\<close>

lemma utf8_decode_ignore_ascii: "list_all is_ascii s \<Longrightarrow> utf8_decode_ignore (blit s) = lit s"
proof (induction s)
  case Nil
  then show ?case by (simp add: blit_def lit_def)
next
  case (Cons c s)
  then have c: "(of_char c :: nat) < 128" and s: "utf8_decode_ignore (blit s) = lit s"
    by (simp_all add: is_ascii_def)
  have lt: "(of_char c :: byte) < 0x80"
    using c by (simp add: word_less_nat_alt unat_of_char)
  have "utf8_next (of_char c # blit s) = Some (of_char c, blit s)"
    using lt by (simp add: unat_of_char)
  then show ?case
    using s by (simp add: blit_def lit_def utf8_decode_ignore_Cons del: utf8_next.simps)
qed

lemma length_name_field: "length (name_field n) = 100"
  by (simp add: name_field_def)

lemma take_name_field: "take 100 (name_field n @ p) = name_field n"
  by (simp add: length_name_field)

lemma drop_name_field: "drop 100 (name_field n @ p) = p"
  by (simp add: length_name_field)

lemma takeWhile_name_field:
  "length n < 100 \<Longrightarrow> 0 \<notin> set n \<Longrightarrow> takeWhile (\<lambda>b. b \<noteq> 0) (name_field n) = n"
proof -
  assume a: "length n < 100" "0 \<notin> set n"
  then obtain k where k: "100 - length n = Suc k" by (cases "100 - length n") auto
  have nf: "name_field n = n @ replicate (100 - length n) 0"
    using a by (simp add: name_field_def)
  have nz: "\<And>x. x \<in> set n \<Longrightarrow> x \<noteq> 0" using a by auto
  show ?thesis unfolding nf k by (simp add: takeWhile_append2 nz)
qed

lemma length_blit: "length (blit s) = length s"
  by (simp add: blit_def)

lemma no_nul: "list_all (\<lambda>c. (of_char c :: nat) \<noteq> 0) s \<Longrightarrow> 0 \<notin> set (blit s)"
proof (induction s)
  case Nil
  then show ?case by (simp add: blit_def)
next
  case (Cons c s)
  have "(of_char c :: byte) \<noteq> 0"
  proof
    assume "(of_char c :: byte) = 0"
    then have "unat (of_char c :: byte) = 0" by simp
    with Cons.prems show False by (simp add: unat_of_char)
  qed
  with Cons show ?case by (simp add: blit_def)
qed

lemma file_name_field:
  assumes "length s < 100" and "list_all is_ascii s" and "list_all (\<lambda>c. (of_char c :: nat) \<noteq> 0) s"
  shows "file_name (name_field (blit s) @ p) = strip (lit s)"
proof -
  have "takeWhile (\<lambda>b. b \<noteq> 0) (name_field (blit s)) = blit s"
    using assms by (simp add: takeWhile_name_field length_blit no_nul)
  then show ?thesis
    unfolding file_name_def take_name_field using assms(2)
    by (simp add: utf8_decode_ignore_ascii)
qed

lemma ex_name: "file_name (name_field (blit ''a.jpg'') @ blit ''0123456789'') = lit ''a.jpg''"
  by (subst file_name_field) (simp_all add: is_ascii_def, rule strip_id, simp_all add: lit_def is_space_def)

lemma ex_path: "os_path_join FILE_SAVE_PATH (lit ''a.jpg'') = lit ''/home/ppt5517/received_files/a.jpg''"
  by (simp add: os_path_join_def FILE_SAVE_PATH_def startswith_def endswith_def lit_def)

lemma ex_open: "open_wb startup_fs (lit ''/home/ppt5517/received_files/a.jpg'') = Inr (save_dir @ [lit ''a.jpg''])"
  by (simp add: open_wb_def startup_fs_def save_dir_def lit_def)

lemma walk_after_write:
  "walk t cur cs = Inr p \<Longrightarrow> t target \<noteq> Some Dir \<Longrightarrow> walk (t(target \<mapsto> File b)) cur cs = Inr p"
proof (induction cs arbitrary: cur)
  case Nil
  then have "t cur = Some Dir" by (auto split: option.splits node.splits)
  with Nil show ?case by auto
next
  case (Cons c cs)
  then have d: "t cur = Some Dir" by (auto split: option.splits node.splits)
  with Cons.prems have ne: "cur \<noteq> target" by auto
  show ?case
    using Cons.prems d ne Cons.IH by (auto split: if_splits)
qed

lemma open_after_write:
  assumes "open_wb t path = Inr target"
  shows "open_rb (t(target \<mapsto> File b)) path = Inr (target, b)"
proof -
  let ?comps = "split_on 47 path"
  let ?named = "rev (dropWhile (\<lambda>c. c = []) (rev ?comps))"
  have n: "?named \<noteq> []"
  proof
    assume "?named = []"
    then have "open_wb t path = (if path = [] then Inl ENOENT else Inl EISDIR)"
      by (simp add: open_wb_def Let_def)
    with assms show False by (simp split: if_splits)
  qed
  have ow: "open_wb t' path =
      (case walk t' [] (butlast ?named) of
         Inl err \<Rightarrow> Inl err
       | Inr parent \<Rightarrow>
           if last ?comps = [] \<or> last ?named = lit ''.'' \<or> last ?named = lit ''..''
           then Inl EISDIR
           else case t' (parent @ [last ?named]) of
                  Some Dir \<Rightarrow> Inl EISDIR
                | _ \<Rightarrow> Inr (parent @ [last ?named]))" for t'
    using n by (simp only: open_wb_def Let_def if_False)
  from assms obtain parent where p: "walk t [] (butlast ?named) = Inr parent"
    unfolding ow by (auto split: sum.splits)
  from assms p
  have l: "\<not> (last ?comps = [] \<or> last ?named = lit ''.'' \<or> last ?named = lit ''..'')"
    and tg: "target = parent @ [last ?named]" and nd: "t target \<noteq> Some Dir"
    unfolding ow by (auto split: if_splits option.splits node.splits)
  have "walk (t(target \<mapsto> File b)) [] (butlast ?named) = Inr parent"
    using p nd by (rule walk_after_write)
  then have "open_wb (t(target \<mapsto> File b)) path = Inr target"
    unfolding ow using l tg by simp
  then show ?thesis by (simp add: open_rb_def)
qed

text \<open>
  Claim C6, as amended. When the stripped name is empty the reply is the error about
  the file name and nothing is written. Otherwise the name is joined onto the save
  path; when that path can be opened for writing, the bytes after byte 100 become the
  content of the file it names (reading the path back gives them), no other node
  changes and the reply is \<open>FILE_SAVED\<close>; when opening raises, the reply is \<open>ERROR:\<close>
  with the text of the error and nothing is written.
\<close>

theorem file_receiver_stores:
  "(file_name data = [] \<longrightarrow>
      file_receiver error_text t data = (t, lit ''ERROR:'' @ msg_invalid_filename)) \<and>
   (file_name data \<noteq> [] \<and>
    open_wb t (os_path_join FILE_SAVE_PATH (file_name data)) = Inr target \<longrightarrow>
      snd (file_receiver error_text t data) = lit ''FILE_SAVED'' \<and>
      fst (file_receiver error_text t data) target = Some (File (drop 100 data)) \<and>
      (\<forall>n. n \<noteq> target \<longrightarrow> fst (file_receiver error_text t data) n = t n) \<and>
      open_rb (fst (file_receiver error_text t data))
          (os_path_join FILE_SAVE_PATH (file_name data)) = Inr (target, drop 100 data)) \<and>
   (file_name data \<noteq> [] \<and>
    open_wb t (os_path_join FILE_SAVE_PATH (file_name data)) = Inl err \<longrightarrow>
      file_receiver error_text t data =
        (t, lit ''ERROR:'' @ error_text err (os_path_join FILE_SAVE_PATH (file_name data))))"
proof (intro conjI impI)
  assume "file_name data = []"
  then show "file_receiver error_text t data = (t, lit ''ERROR:'' @ msg_invalid_filename)"
    by (simp add: file_receiver_def)
next
  assume a: "file_name data \<noteq> [] \<and>
    open_wb t (os_path_join FILE_SAVE_PATH (file_name data)) = Inr target"
  then have r: "file_receiver error_text t data = (t(target \<mapsto> File (drop 100 data)), lit ''FILE_SAVED'')"
    by (simp add: file_receiver_def Let_def)
  show "snd (file_receiver error_text t data) = lit ''FILE_SAVED''" by (simp add: r)
  show "fst (file_receiver error_text t data) target = Some (File (drop 100 data))" by (simp add: r)
  show "\<forall>n. n \<noteq> target \<longrightarrow> fst (file_receiver error_text t data) n = t n" by (simp add: r)
  show "open_rb (fst (file_receiver error_text t data))
          (os_path_join FILE_SAVE_PATH (file_name data)) = Inr (target, drop 100 data)"
    using a by (simp add: r open_after_write)
next
  assume "file_name data \<noteq> [] \<and>
    open_wb t (os_path_join FILE_SAVE_PATH (file_name data)) = Inl err"
  then show "file_receiver error_text t data =
        (t, lit ''ERROR:'' @ error_text err (os_path_join FILE_SAVE_PATH (file_name data)))"
    by (simp add: file_receiver_def Let_def)
qed

theorem file_receiver_stores_witness:
  "file_name (name_field (blit ''a.jpg'') @ blit ''0123456789'') = lit ''a.jpg'' \<and>
   lit ''a.jpg'' \<noteq> [] \<and>
   open_wb startup_fs (os_path_join FILE_SAVE_PATH (lit ''a.jpg'')) = Inr (save_dir @ [lit ''a.jpg'']) \<and>
   snd (file_receiver posix_error_text startup_fs (name_field (blit ''a.jpg'') @ blit ''0123456789''))
     = lit ''FILE_SAVED'' \<and>
   fst (file_receiver posix_error_text startup_fs (name_field (blit ''a.jpg'') @ blit ''0123456789''))
     (save_dir @ [lit ''a.jpg'']) = Some (File (blit ''0123456789'')) \<and>
   open_rb (fst (file_receiver posix_error_text startup_fs
                   (name_field (blit ''a.jpg'') @ blit ''0123456789'')))
      (lit ''/home/ppt5517/received_files/a.jpg'') =
     Inr (save_dir @ [lit ''a.jpg''], blit ''0123456789'') \<and>
   length (blit ''0123456789'') = 10 \<and>
   file_name (replicate 100 0 @ blit ''0123456789'') = [] \<and>
   file_receiver posix_error_text startup_fs (replicate 100 0 @ blit ''0123456789'') =
     (startup_fs, lit ''ERROR:'' @ msg_invalid_filename)"
proof -
  let ?d = "name_field (blit ''a.jpg'') @ blit ''0123456789''"
  let ?z = "replicate 100 0 @ blit ''0123456789'' :: bytes"
  have n: "file_name ?d = lit ''a.jpg''" by (rule ex_name)
  have ne: "lit ''a.jpg'' \<noteq> []" by (simp add: lit_def)
  have o: "open_wb startup_fs (os_path_join FILE_SAVE_PATH (lit ''a.jpg'')) = Inr (save_dir @ [lit ''a.jpg''])"
    by (simp add: ex_path ex_open)
  have pre: "file_name ?d \<noteq> [] \<and>
      open_wb startup_fs (os_path_join FILE_SAVE_PATH (file_name ?d)) = Inr (save_dir @ [lit ''a.jpg''])"
    using ne o by (simp add: n)
  note th = file_receiver_stores [of ?d posix_error_text startup_fs "save_dir @ [lit ''a.jpg'']" ENOENT]
  note st = th [THEN conjunct2, THEN conjunct1, THEN mp, OF pre]
  have s1: "snd (file_receiver posix_error_text startup_fs ?d) = lit ''FILE_SAVED''"
    by (rule st [THEN conjunct1])
  have s2: "fst (file_receiver posix_error_text startup_fs ?d) (save_dir @ [lit ''a.jpg''])
      = Some (File (blit ''0123456789''))"
    using st [THEN conjunct2, THEN conjunct1] by (simp add: length_name_field)
  have s3: "open_rb (fst (file_receiver posix_error_text startup_fs ?d))
      (lit ''/home/ppt5517/received_files/a.jpg'') = Inr (save_dir @ [lit ''a.jpg''], blit ''0123456789'')"
    using st [THEN conjunct2, THEN conjunct2, THEN conjunct2]
    by (simp add: length_name_field n ex_path)
  have l: "length (blit ''0123456789'') = 10" by (simp add: blit_def)
  have z: "file_name ?z = []"
    by (simp add: file_name_def strip_def)
  have e: "file_receiver posix_error_text startup_fs ?z = (startup_fs, lit ''ERROR:'' @ msg_invalid_filename)"
    by (rule file_receiver_stores [of ?z posix_error_text startup_fs "[]" ENOENT,
          THEN conjunct1, THEN mp, OF z])
  show ?thesis by (intro conjI n ne o s1 s2 s3 l z e)
qed

lemma dir_name: "file_name (name_field (blit ''audio_recordings'') @ blit ''0123456789'') = lit ''audio_recordings''"
  by (subst file_name_field) (simp_all add: is_ascii_def, rule strip_id, simp_all add: lit_def is_space_def)

lemma dir_path: "os_path_join FILE_SAVE_PATH (lit ''audio_recordings'') = lit ''/home/ppt5517/received_files/audio_recordings''"
  by (simp add: os_path_join_def FILE_SAVE_PATH_def startswith_def endswith_def lit_def)

lemma dir_open: "open_wb startup_fs (lit ''/home/ppt5517/received_files/audio_recordings'') = Inl EISDIR"
  by (simp add: open_wb_def startup_fs_def save_dir_def lit_def)

text \<open>
  Claim C6 as stated fails for a name that is not empty and cannot be opened as a
  file: \<open>audio_recordings\<close> is the directory the module itself creates under the save
  path, and a datagram with that name is answered with an error and stores nothing.
\<close>

theorem file_receiver_directory_name:
  "file_name (name_field (blit ''audio_recordings'') @ blit ''0123456789'') = lit ''audio_recordings'' \<and>
   lit ''audio_recordings'' \<noteq> [] \<and>
   startup_fs (save_dir @ [lit ''audio_recordings'']) = Some Dir \<and>
   file_receiver posix_error_text startup_fs
       (name_field (blit ''audio_recordings'') @ blit ''0123456789'') =
     (startup_fs,
      lit ''ERROR:[Errno 21] Is a directory: '' @ lit [CHR 0x27] @
      lit ''/home/ppt5517/received_files/audio_recordings'' @ lit [CHR 0x27])"
proof -
  have 1: "lit ''audio_recordings'' \<noteq> []" by (simp add: lit_def)
  have 2: "startup_fs (save_dir @ [lit ''audio_recordings'']) = Some Dir"
    by (simp add: startup_fs_def)
  have 3: "file_receiver posix_error_text startup_fs
       (name_field (blit ''audio_recordings'') @ blit ''0123456789'') =
     (startup_fs,
      lit ''ERROR:[Errno 21] Is a directory: '' @ lit [CHR 0x27] @
      lit ''/home/ppt5517/received_files/audio_recordings'' @ lit [CHR 0x27])"
    using 1 by (simp add: file_receiver_def dir_name dir_path dir_open posix_error_text_def)
       (simp add: lit_def)
  show ?thesis by (intro conjI dir_name 1 2 3)
qed

subsection \<open>Names that leave the save directory\<close>

lemma up_name: "file_name (name_field (blit ''../x'') @ blit ''0123456789'') = lit ''../x''"
  by (subst file_name_field) (simp_all add: is_ascii_def, rule strip_id, simp_all add: lit_def is_space_def)

lemma up_path: "os_path_join FILE_SAVE_PATH (lit ''../x'') = lit ''/home/ppt5517/received_files/../x''"
  by (simp add: os_path_join_def FILE_SAVE_PATH_def startswith_def endswith_def lit_def)

lemma up_open: "open_wb startup_fs (lit ''/home/ppt5517/received_files/../x'') = Inr [lit ''home'', lit ''ppt5517'', lit ''x'']"
  by (simp add: open_wb_def startup_fs_def save_dir_def lit_def)

text \<open>
  Claim C10. The name is joined onto the save path as it is. A datagram whose name is
  \<open>../x\<close> is answered with \<open>FILE_SAVED\<close>, and the file it wrote is
  \<open>/home/ppt5517/x\<close>, which does not lie under the save directory.
\<close>

theorem file_receiver_escapes_save_dir:
  "file_name (name_field (blit ''../x'') @ blit ''0123456789'') = lit ''../x'' \<and>
   os_path_join FILE_SAVE_PATH (lit ''../x'') = lit ''/home/ppt5517/received_files/../x'' \<and>
   file_receiver posix_error_text startup_fs (name_field (blit ''../x'') @ blit ''0123456789'') =
     (startup_fs([lit ''home'', lit ''ppt5517'', lit ''x''] \<mapsto> File (blit ''0123456789'')),
      lit ''FILE_SAVED'') \<and>
   \<not> startswith [lit ''home'', lit ''ppt5517'', lit ''x''] save_dir"
proof -
  have 1: "lit ''../x'' \<noteq> []" by (simp add: lit_def)
  have 3: "file_receiver posix_error_text startup_fs (name_field (blit ''../x'') @ blit ''0123456789'') =
     (startup_fs([lit ''home'', lit ''ppt5517'', lit ''x''] \<mapsto> File (blit ''0123456789'')),
      lit ''FILE_SAVED'')"
    using 1 by (simp add: file_receiver_def up_name up_path up_open length_name_field)
  have 4: "\<not> startswith [lit ''home'', lit ''ppt5517'', lit ''x''] save_dir"
    by (simp add: startswith_def save_dir_def)
  show ?thesis by (intro conjI up_name up_path 3 4)
qed

section \<open>Properties of the stream file transfer\<close>

subsection \<open>What a session does\<close>






lemma upload_path_example:
  "upload_path example_time = lit ''/home/ppt5517/received_files/upload_20250101_120000.bin''"
  by (simp add: upload_path_def example_time_def os_path_join_def FILE_SAVE_PATH_def
        startswith_def endswith_def lit_def)

lemma upload_open: "open_wb startup_fs (upload_path example_time) = Inr upload_node"
  unfolding upload_path_example
  by (simp add: open_wb_def startup_fs_def save_dir_def upload_node_def lit_def)





lemma wav_test_fails: "\<not> (startswith (take 4 content) (blit ''RIFF'') \<and>
    take 4 (drop 8 (take 4 content)) = blit ''WAVE'')"
  by (simp add: blit_def)

lemma guess_unmatched:
  assumes "open_rb t p = Inr (n, content)"
    and "\<not> startswith (take 4 content) [0xFF, 0xD8, 0xFF]"
    and "\<not> startswith (take 4 content) (0x89 # blit ''PNG'')"
    and "\<not> startswith (take 4 content) [0x00, 0x00, 0x00, 0x20]"
  shows "guess_file_type ts t p = (t, p)"
  using assms by (simp add: guess_file_type_def Let_def blit_def)






subsection \<open>The signatures\<close>

lemma guess_jpeg:
  assumes "open_rb t p = Inr (n, content)"
    and "startswith (take 4 content) [0xFF, 0xD8, 0xFF]"
    and "os_path_join FILE_SAVE_PATH (lit ''image_'' @ ts @ lit ''.jpg'') \<noteq> p"
    and "open_wb t (os_path_join FILE_SAVE_PATH (lit ''image_'' @ ts @ lit ''.jpg'')) = Inr m"
  shows "guess_file_type ts t p =
     ((t(n := None))(m \<mapsto> File content),
      os_path_join FILE_SAVE_PATH (lit ''image_'' @ ts @ lit ''.jpg''))"
  using assms by (simp add: guess_file_type_def Let_def rename_file_def)

lemma wav_recv:
  "recv 6 wav_conn = (Inr [0x30, 0xC1, 0, 0, 0, 20], wav_conn\<lparr>pending := [[], wav_bytes]\<rparr>)"
  by (simp add: recv_def wav_conn_def)

lemma size_twenty: "be32 (drop 2 [0x30, 0xC1, 0, 0, 0, 20]) = 20" "be32 [0, 0, 0, 20] = 20"
  by (simp_all add: be32_def)

lemma wav_loop:
  "recv_loop 20 0 [] (wav_conn\<lparr>pending := [[], wav_bytes]\<rparr>) =
     (Filled, 20, wav_bytes, wav_conn\<lparr>pending := [[]]\<rparr>)"
  by (simp add: recv_loop.simps recv_def wav_conn_def wav_bytes_def blit_def)

lemma wav_guess:
  "guess_file_type example_time (startup_fs(upload_node \<mapsto> File wav_bytes))
     (upload_path example_time) =
   (startup_fs(upload_node \<mapsto> File wav_bytes), upload_path example_time)"
  by (rule guess_unmatched [OF open_after_write [OF upload_open]])
     (simp_all add: startswith_def blit_def wav_bytes_def)

text \<open>
  Claim C8 says that a WAV file, \<open>RIFF\<close> with \<open>WAVE\<close> at bytes 8 to 11, is renamed
  to a \<open>.wav\<close> name. \<open>guess_file_type\<close> reads four bytes and takes the slice
  \<open>[8:12]\<close> of those four, which is empty (\<open>wav_test_fails\<close>): the test for WAV
  holds for no file. A stored upload with a WAV header keeps its name
  \<open>upload_\<dots>.bin\<close>, and the session that uploaded it returns that name. Files of
  the other signatures are renamed (\<open>guess_jpeg\<close>), and a file of no signature is
  left as it is (\<open>guess_unmatched\<close>).
\<close>

theorem guess_file_type_misses_wav:
  "startswith wav_bytes (blit ''RIFF'') \<and> take 4 (drop 8 wav_bytes) = blit ''WAVE'' \<and>
   guess_file_type example_time (startup_fs(upload_node \<mapsto> File wav_bytes))
       (upload_path example_time) =
     (startup_fs(upload_node \<mapsto> File wav_bytes), upload_path example_time) \<and>
   handle_tcp_file_transfer posix_error_text example_time example_time startup_fs wav_conn =
     (startup_fs(upload_node \<mapsto> File wav_bytes),
      sendall (wav_conn\<lparr>pending := [[]]\<rparr>) (lit ''FILE_TRANSFER_SUCCESS''),
      Some (upload_path example_time))"
proof -
  have 1: "startswith wav_bytes (blit ''RIFF'')" "take 4 (drop 8 wav_bytes) = blit ''WAVE''"
    by (simp_all add: startswith_def wav_bytes_def blit_def)
  have 2: "handle_tcp_file_transfer posix_error_text example_time example_time startup_fs wav_conn =
     (startup_fs(upload_node \<mapsto> File wav_bytes),
      sendall (wav_conn\<lparr>pending := [[]]\<rparr>) (lit ''FILE_TRANSFER_SUCCESS''),
      Some (upload_path example_time))"
    by (simp add: handle_tcp_file_transfer_def wav_recv size_twenty upload_open wav_loop wav_guess)
  show ?thesis by (intro conjI 1 wav_guess 2)
qed

section \<open>Datagrams and the command loops\<close>

lemma strip_has_token: "strip s \<noteq> [] \<Longrightarrow> split (strip s) \<noteq> []"
proof -
  assume ne: "strip s \<noteq> []"
  let ?r = "dropWhile is_space (rev (dropWhile is_space s))"
  from ne have r: "?r \<noteq> []" by (simp add: strip_def)
  then have "\<not> is_space (hd ?r)" by (rule hd_dropWhile)
  moreover have "hd ?r \<in> set (strip s)" using r by (simp add: strip_def)
  ultimately show ?thesis unfolding split_def by (intro split_from_nonempty) blast
qed

lemma get_command_code_after_strip: "\<exists>code. get_command_code (strip s) = Inr code"
proof (cases "32 \<in> set (strip s)")
  case True
  then have "strip s \<noteq> []" by auto
  then obtain t ts where "split (strip s) = t # ts"
    using strip_has_token by (cases "split (strip s)") auto
  with True show ?thesis by (simp add: get_command_code_def)
next
  case False
  then show ?thesis by (simp add: get_command_code_def)
qed

lemma decodable_answered:
  assumes "utf8_decode data = Some s"
  shows "\<exists>d' r. handle_udp_command e d data = Inr (d', r)"
    and "\<exists>d' r. udp_command_server e d data = Inr (d', r)"
proof -
  show "\<exists>d' r. handle_udp_command e d data = Inr (d', r)"
    using assms by (cases "command_body e d (strip s)") (simp add: handle_udp_command_def)
  obtain code where c: "get_command_code (strip s) = Inr code"
    using get_command_code_after_strip by blast
  show "\<exists>d' r. udp_command_server e d data = Inr (d', r)"
    using assms c by (cases "dispatch e code (split (strip s)) d") (simp add: udp_command_server_def)
qed

lemma undecodable:
  assumes "utf8_decode data = None"
  shows "handle_udp_command e d data = Inl UnicodeDecodeError"
    and "udp_command_server e d data = Inl UnicodeDecodeError"
  using assms by (simp_all add: handle_udp_command_def udp_command_server_def)

lemma binary_short_frame:
  "length data < 4 \<Longrightarrow> handle_binary_command e d data = (d, bin_too_short)"
  by (simp add: handle_binary_command_def)

lemma binary_unknown_primary:
  assumes "4 \<le> length data" and "take 2 data = [0xFF, 0xFF]"
  shows "handle_binary_command e d data = (d, lit ''ERROR:'' @ [26410, 30693, 25351, 20196] @ lit '' 0xFFFF'')"
proof -
  have b: "be16 (take 2 data) = 65535" by (simp add: assms(2) be16_def)
  have m: "map_of COMMANDS 65535 = None" by (simp add: COMMANDS_def)
  have h: "hex4 65535 = lit ''FFFF''" by (simp add: hex4_def hex_digit_def lit_def)
  show ?thesis
    using assms(1) by (simp add: handle_binary_command_def Let_def b m bin_unknown_def h) (simp add: lit_def)
qed

text \<open>
  Claim C1 says that no datagram makes the command loop raise. The binary variant
  decodes inside its \<open>try\<close> and answers every datagram: a frame shorter than four
  bytes with the length error, an unregistered primary code such as \<open>0xFFFF\<close> with
  the unknown-command error (\<open>binary_short_frame\<close>, \<open>binary_unknown_primary\<close>). The
  plain-text variant and the final variant answer every datagram that is well-formed
  UTF-8 (\<open>decodable_answered\<close>), but they decode before the \<open>try\<close>: the datagram
  that consists of the byte \<open>0xFF\<close> raises \<open>UnicodeDecodeError\<close> out of the loop,
  and no response is sent.
\<close>

theorem undecodable_datagram_ends_loop:
  "utf8_decode [0xFF] = None \<and>
   handle_udp_command bench_env initial_device [0xFF] = Inl UnicodeDecodeError \<and>
   udp_command_server bench_env initial_device [0xFF] = Inl UnicodeDecodeError"
proof -
  have u: "utf8_decode [0xFF] = None" by (simp add: utf8_decode_Cons)
  show ?thesis by (intro conjI u undecodable [OF u])
qed

end
